theory Spec2Isabelle
  imports Complex_Main "HOL-Library.Sublist"
begin

section \<open>Print skew compensation: skew factors and the G-code shear\<close>

text \<open>
  The development follows two source files: \<^verbatim>\<open>SkewCalculator.py\<close> (the quarter formula
  behind the Marlin \<^verbatim>\<open>M852\<close> line) and \<^verbatim>\<open>scripts/PrintSkewCompensationCKM.py\<close> (the
  geometric factor and the rewriting of \<^verbatim>\<open>G0\<close>/\<^verbatim>\<open>G1\<close> lines). The control flow, the
  exceptions and the text handling are modelled as the source has them.

  A finite Python float is read as a real number: the binary rounding of a result that
  stays inside the float range, and the sign of zero, are left out everywhere.

  In \<^verbatim>\<open>SkewCalculator.py\<close> the range of the floats is part of the model, because it
  decides the control flow there: \<^verbatim>\<open>x ** 2\<close> raises \<^verbatim>\<open>OverflowError\<close> when the square
  leaves the range, a square that underflows to \<^verbatim>\<open>0.0\<close> makes the division raise
  \<^verbatim>\<open>ZeroDivisionError\<close>, and a product or a quotient that leaves the range is an
  infinity, which is then stored.

  In \<^verbatim>\<open>scripts/PrintSkewCompensationCKM.py\<close> the arithmetic is made of sums, products
  and quotients, which never raise for a magnitude; there the real reading is kept
  throughout, so a statement about that file says nothing about intermediate results
  beyond the float range (they would be infinities or NaN). One constant of that file is
  not read as its real namesake: \<^verbatim>\<open>math.pi\<close> is a float below \<open>\<pi>\<close>, so the tangent
  at \<^verbatim>\<open>math.pi/2\<close> is a large finite number and not a pole.
\<close>

subsection \<open>Exceptions and float values\<close>

datatype exn = ValueError | TypeError | ZeroDivisionError | OverflowError

text \<open>A float: a finite value, one of the two infinities, or NaN.\<close>

datatype pyfloat = Finite real | PosInf | NegInf | NaN

text \<open>
  The ends of the float range. An exact result of magnitude \<open>2^1024 - 2^970\<close> or more
  (the midpoint between the largest float and \<open>2^1024\<close>, a tie that goes up) overflows;
  one of magnitude \<open>2^-1075\<close> or less (half the smallest subnormal, a tie that goes
  down) becomes zero.
\<close>

definition OVERFLOW_AT :: real where
  "OVERFLOW_AT = 2 ^ 1024 - 2 ^ 970"

definition UNDERFLOW_AT :: real where
  "UNDERFLOW_AT = 1 / 2 ^ 1075"

text \<open>
  The float that an exact sum or difference becomes (it cannot underflow), and the float
  that an exact product or quotient becomes. Neither operation raises.
\<close>

definition fl_sum :: "real \<Rightarrow> pyfloat" where
  "fl_sum x =
     (if OVERFLOW_AT \<le> x then PosInf
      else if x \<le> - OVERFLOW_AT then NegInf
      else Finite x)"

definition fl :: "real \<Rightarrow> pyfloat" where
  "fl x = (if \<bar>x\<bar> \<le> UNDERFLOW_AT then Finite 0 else fl_sum x)"

text \<open>
  A stored measurement, seen through what \<^verbatim>\<open>float(v)\<close> does with it. \<open>PyNumber r\<close> is an
  int, a finite float or a numeric string of value \<open>r\<close>; of these only an int can lie
  beyond the float range, and \<^verbatim>\<open>float\<close> raises \<^verbatim>\<open>OverflowError\<close> for it. \<open>PyInf\<close>,
  \<open>PyNegInf\<close> and \<open>PyNaN\<close> are the non-finite floats and the strings that convert to
  them (\<^verbatim>\<open>"inf"\<close>, \<^verbatim>\<open>"1e999"\<close>, \<^verbatim>\<open>"nan"\<close>). A string that is no number raises
  \<^verbatim>\<open>ValueError\<close>, and \<^verbatim>\<open>None\<close> raises \<^verbatim>\<open>TypeError\<close>.
\<close>

datatype pyval = PyNumber real | PyInf | PyNegInf | PyNaN | PyBadString string | PyNone

fun py_float :: "pyval \<Rightarrow> exn + pyfloat" where
  "py_float (PyNumber r) = (if OVERFLOW_AT \<le> \<bar>r\<bar> then Inl OverflowError else Inr (Finite r))"
| "py_float PyInf = Inr PosInf"
| "py_float PyNegInf = Inr NegInf"
| "py_float PyNaN = Inr NaN"
| "py_float (PyBadString s) = Inl ValueError"
| "py_float PyNone = Inl TypeError"

declare py_float.simps(1) [simp del]

text \<open>The comparisons \<^verbatim>\<open>AD <= 0\<close> and \<^verbatim>\<open>AD != 0\<close>; every comparison with NaN but \<^verbatim>\<open>!=\<close> is false.\<close>

fun le_zero :: "pyfloat \<Rightarrow> bool" where
  "le_zero (Finite x) = (x \<le> 0)"
| "le_zero PosInf = False"
| "le_zero NegInf = True"
| "le_zero NaN = False"

fun ne_zero :: "pyfloat \<Rightarrow> bool" where
  "ne_zero (Finite x) = (x \<noteq> 0)"
| "ne_zero PosInf = True"
| "ne_zero NegInf = True"
| "ne_zero NaN = True"

text \<open>
  \<^verbatim>\<open>x ** 2\<close>: the power of a finite float raises \<^verbatim>\<open>OverflowError\<close> when the result leaves
  the range, and gives \<^verbatim>\<open>0.0\<close> when it underflows.
\<close>

fun py_pow2 :: "pyfloat \<Rightarrow> exn + pyfloat" where
  "py_pow2 (Finite x) =
     (if OVERFLOW_AT \<le> x\<^sup>2 then Inl OverflowError
      else if x\<^sup>2 \<le> UNDERFLOW_AT then Inr (Finite 0)
      else Inr (Finite (x\<^sup>2)))"
| "py_pow2 PosInf = Inr PosInf"
| "py_pow2 NegInf = Inr PosInf"
| "py_pow2 NaN = Inr NaN"

declare py_pow2.simps(1) [simp del]

text \<open>\<^verbatim>\<open>a - b\<close> and \<^verbatim>\<open>4 * x\<close>.\<close>

fun py_sub :: "pyfloat \<Rightarrow> pyfloat \<Rightarrow> pyfloat" where
  "py_sub (Finite a) (Finite b) = fl_sum (a - b)"
| "py_sub NaN y = NaN"
| "py_sub x NaN = NaN"
| "py_sub PosInf PosInf = NaN"
| "py_sub NegInf NegInf = NaN"
| "py_sub PosInf y = PosInf"
| "py_sub NegInf y = NegInf"
| "py_sub (Finite a) PosInf = NegInf"
| "py_sub (Finite a) NegInf = PosInf"

fun times4 :: "pyfloat \<Rightarrow> pyfloat" where
  "times4 (Finite x) = fl (4 * x)"
| "times4 PosInf = PosInf"
| "times4 NegInf = NegInf"
| "times4 NaN = NaN"

text \<open>
  \<^verbatim>\<open>a / b\<close> on floats: \<^verbatim>\<open>ZeroDivisionError\<close> for a zero divisor whatever the dividend, no
  exception otherwise.
\<close>

fun float_truediv :: "pyfloat \<Rightarrow> pyfloat \<Rightarrow> exn + pyfloat" where
  "float_truediv x (Finite b) =
     (if b = 0 then Inl ZeroDivisionError
      else case x of
        Finite a \<Rightarrow> Inr (fl (a / b))
      | PosInf \<Rightarrow> Inr (if 0 < b then PosInf else NegInf)
      | NegInf \<Rightarrow> Inr (if 0 < b then NegInf else PosInf)
      | NaN \<Rightarrow> Inr NaN)"
| "float_truediv x NaN = Inr NaN"
| "float_truediv (Finite a) y = Inr (Finite 0)"
| "float_truediv x y = Inr NaN"

subsection \<open>SkewCalculator\<close>

record calc =
  xy_ac :: pyval
  xy_bd :: pyval
  xy_ad :: pyval
  xz_ac :: pyval
  xz_bd :: pyval
  xz_ad :: pyval
  yz_ac :: pyval
  yz_bd :: pyval
  yz_ad :: pyval
  marlin_I :: pyfloat
  marlin_J :: pyfloat
  marlin_K :: pyfloat

text \<open>
  The expression \<^verbatim>\<open>(AC**2 - BD**2) / (4 * AD**2)\<close>, which the three blocks share,
  evaluated from left to right.
\<close>

definition quarter_expr :: "pyfloat \<Rightarrow> pyfloat \<Rightarrow> pyfloat \<Rightarrow> exn + pyfloat" where
  "quarter_expr AC BD AD =
     (case py_pow2 AC of Inl e \<Rightarrow> Inl e | Inr AC2 \<Rightarrow>
      case py_pow2 BD of Inl e \<Rightarrow> Inl e | Inr BD2 \<Rightarrow>
      case py_pow2 AD of Inl e \<Rightarrow> Inl e | Inr AD2 \<Rightarrow>
        float_truediv (py_sub AC2 BD2) (times4 AD2))"

text \<open>
  The body of the first \<^verbatim>\<open>try\<close> block of \<^verbatim>\<open>calculate_skew_factors\<close> (plane XY): three
  conversions in order, the guard on \<^verbatim>\<open>AD\<close>, then the expression with no further test.
\<close>

definition try_I :: "pyval \<Rightarrow> pyval \<Rightarrow> pyval \<Rightarrow> exn + pyfloat" where
  "try_I ac bd ad =
     (case py_float ac of Inl e \<Rightarrow> Inl e | Inr AC \<Rightarrow>
      case py_float bd of Inl e \<Rightarrow> Inl e | Inr BD \<Rightarrow>
      case py_float ad of Inl e \<Rightarrow> Inl e | Inr AD \<Rightarrow>
        if le_zero AD then Inl ValueError else quarter_expr AC BD AD)"

text \<open>
  The bodies of the second and third block (planes XZ and YZ) carry the extra
  conditional expression \<^verbatim>\<open>... if AD != 0 else 0.0\<close>.
\<close>

definition try_JK :: "pyval \<Rightarrow> pyval \<Rightarrow> pyval \<Rightarrow> exn + pyfloat" where
  "try_JK ac bd ad =
     (case py_float ac of Inl e \<Rightarrow> Inl e | Inr AC \<Rightarrow>
      case py_float bd of Inl e \<Rightarrow> Inl e | Inr BD \<Rightarrow>
      case py_float ad of Inl e \<Rightarrow> Inl e | Inr AD \<Rightarrow>
        if le_zero AD then Inl ValueError
        else if ne_zero AD then quarter_expr AC BD AD else Inr (Finite 0))"

text \<open>
  \<^verbatim>\<open>except (ValueError, TypeError, ZeroDivisionError)\<close>: the three exceptions are
  absorbed and the factor becomes \<^verbatim>\<open>0.0\<close>; \<^verbatim>\<open>OverflowError\<close> is not in the list and
  leaves the method.
\<close>

fun except_zero :: "exn + pyfloat \<Rightarrow> exn + pyfloat" where
  "except_zero (Inr v) = Inr v"
| "except_zero (Inl ValueError) = Inr (Finite 0)"
| "except_zero (Inl TypeError) = Inr (Finite 0)"
| "except_zero (Inl ZeroDivisionError) = Inr (Finite 0)"
| "except_zero (Inl OverflowError) = Inl OverflowError"

text \<open>
  A method of the calculator either returns or is left by an exception; either way the
  object is there afterwards, with whatever had been assigned by then.
\<close>

datatype outcome = Returns calc | Raises exn calc

fun state_of :: "outcome \<Rightarrow> calc" where
  "state_of (Returns s) = s"
| "state_of (Raises e s) = s"

text \<open>
  \<^verbatim>\<open>calculate_skew_factors\<close>: the three blocks in order, each assigning its factor; an
  exception that a block does not absorb ends the method with the factors of the
  earlier blocks assigned and the others as they were.
\<close>

definition calculate_skew_factors :: "calc \<Rightarrow> outcome" where
  "calculate_skew_factors s =
     (case except_zero (try_I (xy_ac s) (xy_bd s) (xy_ad s)) of
        Inl e \<Rightarrow> Raises e s
      | Inr i \<Rightarrow>
     (case except_zero (try_JK (xz_ac s) (xz_bd s) (xz_ad s)) of
        Inl e \<Rightarrow> Raises e (s\<lparr>marlin_I := i\<rparr>)
      | Inr j \<Rightarrow>
     (case except_zero (try_JK (yz_ac s) (yz_bd s) (yz_ad s)) of
        Inl e \<Rightarrow> Raises e (s\<lparr>marlin_I := i, marlin_J := j\<rparr>)
      | Inr k \<Rightarrow> Returns (s\<lparr>marlin_I := i, marlin_J := j, marlin_K := k\<rparr>))))"

definition init :: outcome where
  "init = calculate_skew_factors
     \<lparr>xy_ac = PyNumber 141.42, xy_bd = PyNumber 141.42, xy_ad = PyNumber 100,
      xz_ac = PyNumber 141.42, xz_bd = PyNumber 141.42, xz_ad = PyNumber 100,
      yz_ac = PyNumber 141.42, yz_bd = PyNumber 141.42, yz_ad = PyNumber 100,
      marlin_I = Finite 0, marlin_J = Finite 0, marlin_K = Finite 0\<rparr>"

record measurements =
  m_xy_ac :: pyval
  m_xy_bd :: pyval
  m_xy_ad :: pyval
  m_xz_ac :: pyval
  m_xz_bd :: pyval
  m_xz_ad :: pyval
  m_yz_ac :: pyval
  m_yz_bd :: pyval
  m_yz_ad :: pyval

text \<open>\<^verbatim>\<open>set_measurements\<close> stores the nine values first and computes afterwards.\<close>

definition set_measurements :: "measurements \<Rightarrow> calc \<Rightarrow> outcome" where
  "set_measurements m s = calculate_skew_factors
     (s\<lparr>xy_ac := m_xy_ac m, xy_bd := m_xy_bd m, xy_ad := m_xy_ad m,
        xz_ac := m_xz_ac m, xz_bd := m_xz_bd m, xz_ad := m_xz_ad m,
        yz_ac := m_yz_ac m, yz_bd := m_yz_bd m, yz_ad := m_yz_ad m\<rparr>)"

definition get_skew_factors :: "calc \<Rightarrow> pyfloat \<times> pyfloat \<times> pyfloat" where
  "get_skew_factors s = (marlin_I s, marlin_J s, marlin_K s)"

subsection \<open>The geometric factor of the post-processing script\<close>

text \<open>Division, square root and arc cosine on floats read as real numbers.\<close>

definition py_truediv :: "real \<Rightarrow> real \<Rightarrow> exn + real" where
  "py_truediv a b = (if b = 0 then Inl ZeroDivisionError else Inr (a / b))"

definition math_sqrt :: "real \<Rightarrow> exn + real" where
  "math_sqrt x = (if x < 0 then Inl ValueError else Inr (sqrt x))"

definition math_acos :: "real \<Rightarrow> exn + real" where
  "math_acos x = (if -1 \<le> x \<and> x \<le> 1 then Inr (arccos x) else Inl ValueError)"

text \<open>
  \<^verbatim>\<open>math.tan\<close> on the interval from \<^verbatim>\<open>-math.pi/2\<close> to \<^verbatim>\<open>math.pi/2\<close>, where the script
  uses it. At the two ends the argument is the float next to the pole, and the result is
  the finite \<^verbatim>\<open>math.tan(math.pi/2) = 1.633123935319537e+16\<close> or its negative.
\<close>

definition TAN_HALF_PI :: real where
  "TAN_HALF_PI = 16331239353195370"

definition math_tan :: "real \<Rightarrow> real" where
  "math_tan x =
     (if x = pi / 2 then TAN_HALF_PI
      else if x = - (pi / 2) then - TAN_HALF_PI
      else tan x)"

text \<open>The \<^verbatim>\<open>try\<close> block of \<^verbatim>\<open>calculate_skew_factor\<close>, with its three early returns.\<close>

definition skew_try :: "real \<Rightarrow> real \<Rightarrow> real \<Rightarrow> exn + real" where
  "skew_try ac bd ad =
     (let term_sqrt = 2 * ac * ac + 2 * bd * bd - 4 * ad * ad in
      if term_sqrt < 0 then Inr 0
      else case math_sqrt term_sqrt of Inl e \<Rightarrow> Inl e | Inr r \<Rightarrow>
        let ab = r / 2; denominator_acos = 2 * ab * ad in
        if denominator_acos = 0 then Inr 0
        else case py_truediv (ac * ac - ab * ab - ad * ad) denominator_acos of
          Inl e \<Rightarrow> Inl e
        | Inr arg_acos \<Rightarrow>
            if \<not> (-1 \<le> arg_acos \<and> arg_acos \<le> 1) then Inr 0
            else case math_acos arg_acos of Inl e \<Rightarrow> Inl e
              | Inr a \<Rightarrow> Inr (math_tan (pi / 2 - a)))"

text \<open>Both handlers (\<^verbatim>\<open>ValueError\<close>, then any \<^verbatim>\<open>Exception\<close>) return \<^verbatim>\<open>0.0\<close>.\<close>

definition calculate_skew_factor :: "real \<Rightarrow> real \<Rightarrow> real \<Rightarrow> real" where
  "calculate_skew_factor ac bd ad =
     (if ac \<le> 0 \<or> bd \<le> 0 \<or> ad \<le> 0 then 0
      else case skew_try ac bd ad of Inl e \<Rightarrow> 0 | Inr v \<Rightarrow> v)"

subsection \<open>Numbers on a G-code line and their printed form\<close>

text \<open>
  \<^verbatim>\<open>getValue\<close> returns an int or a float. A float that stands for a decimal numeral is
  kept as that numeral: \<open>PFloat m d\<close> is the float written \<open>m / 10 ^ d\<close>. The same form
  holds the result of \<^verbatim>\<open>round(v, 3)\<close>, a count of thousandths.
\<close>

datatype pynum = PInt int | PFloat int nat

fun num_val :: "pynum \<Rightarrow> real" where
  "num_val (PInt i) = of_int i"
| "num_val (PFloat m d) = of_int m / 10 ^ d"

text \<open>Rounding to the nearest integer, a tie going to the even neighbour.\<close>

definition py_round :: "real \<Rightarrow> int" where
  "py_round v =
     (let f = \<lfloor>v\<rfloor>; r = v - of_int f
      in if r < 1 / 2 then f else if 1 / 2 < r then f + 1 else if even f then f else f + 1)"

text \<open>\<^verbatim>\<open>round(v, 3)\<close> on a float.\<close>

definition round3 :: "real \<Rightarrow> pynum" where
  "round3 v = PFloat (py_round (v * 1000)) 3"

definition digit_char :: "nat \<Rightarrow> char" where
  "digit_char n = ''0123456789'' ! (n mod 10)"

fun nat_digits :: "nat \<Rightarrow> string" where
  "nat_digits n =
     (if n < 10 then [digit_char n] else nat_digits (n div 10) @ [digit_char (n mod 10)])"

declare nat_digits.simps [simp del]

definition int_str :: "int \<Rightarrow> string" where
  "int_str i = (if i < 0 then CHR ''-'' # nat_digits (nat (- i)) else nat_digits (nat i))"

text \<open>The last \<open>d\<close> decimal digits of \<open>n\<close>, padded with zeros on the left.\<close>

fun frac_digits :: "nat \<Rightarrow> nat \<Rightarrow> string" where
  "frac_digits 0 n = []"
| "frac_digits (Suc d) n = frac_digits d (n div 10) @ [digit_char (n mod 10)]"

fun strip_zeros :: "nat \<Rightarrow> nat \<Rightarrow> nat \<times> nat" where
  "strip_zeros m 0 = (m, 0)"
| "strip_zeros m (Suc d) = (if m mod 10 = 0 then strip_zeros (m div 10) d else (m, Suc d))"

text \<open>
  The \<^verbatim>\<open>repr\<close> of a float that is a short decimal: the shortest digit string, with at
  least one digit after the point (\<^verbatim>\<open>10.0\<close>, \<^verbatim>\<open>10.5\<close>, \<^verbatim>\<open>10.125\<close>). Exponent notation
  (from \<^verbatim>\<open>1e16\<close> on) is outside the model.
\<close>

definition float_repr :: "int \<Rightarrow> nat \<Rightarrow> string" where
  "float_repr m d =
     (case strip_zeros (nat \<bar>m\<bar>) d of (a, e) \<Rightarrow>
        (if m < 0 then ''-'' else []) @ nat_digits (a div 10 ^ e) @ ''.'' @
        (if e = 0 then ''0'' else frac_digits e a))"

text \<open>What an f-string prints for the value: \<^verbatim>\<open>f"{v}"\<close>.\<close>

fun py_str :: "pynum \<Rightarrow> string" where
  "py_str (PInt i) = int_str i"
| "py_str (PFloat m d) = float_repr m d"

subsection \<open>String operations of the compensator\<close>

text \<open>\<^verbatim>\<open>s.find(sub)\<close>: the first index where \<open>sub\<close> starts, \<open>None\<close> for \<^verbatim>\<open>-1\<close>.\<close>

fun find_idx :: "string \<Rightarrow> string \<Rightarrow> nat option" where
  "find_idx [] sub = (if sub = [] then Some 0 else None)"
| "find_idx (c # cs) sub =
     (if prefix sub (c # cs) then Some 0 else map_option Suc (find_idx cs sub))"

definition py_find :: "string \<Rightarrow> string \<Rightarrow> int" where
  "py_find s sub = (case find_idx s sub of None \<Rightarrow> -1 | Some i \<Rightarrow> int i)"

text \<open>\<^verbatim>\<open>sub in s\<close>.\<close>

definition py_in :: "string \<Rightarrow> string \<Rightarrow> bool" where
  "py_in sub s = (find_idx s sub \<noteq> None)"

text \<open>
  \<^verbatim>\<open>s.replace(old, new)\<close>: every occurrence of \<open>old\<close>, left to right, without overlap.
  For an empty \<open>old\<close> Python puts \<open>new\<close> before each character and at the end.
\<close>

function py_replace :: "string \<Rightarrow> string \<Rightarrow> string \<Rightarrow> string" where
  "py_replace s old new =
     (if old = [] then new @ concat (map (\<lambda>c. c # new) s)
      else case s of
        [] \<Rightarrow> []
      | c # cs \<Rightarrow>
          if prefix old s then new @ py_replace (drop (length old) s) old new
          else c # py_replace cs old new)"
  by pat_completeness auto
termination
  by (relation "measure (\<lambda>(s, old, new). length s)") auto

declare py_replace.simps [simp del]

text \<open>\<^verbatim>\<open>layer.split("\n")\<close> and \<^verbatim>\<open>"\n".join(lines)\<close>.\<close>

fun split_nl :: "string \<Rightarrow> string list" where
  "split_nl [] = [[]]"
| "split_nl (c # cs) =
     (if c = CHR 0x0A then [] # split_nl cs
      else case split_nl cs of [] \<Rightarrow> [[c]] | l # ls \<Rightarrow> (c # l) # ls)"

fun join_nl :: "string list \<Rightarrow> string" where
  "join_nl [] = []"
| "join_nl [l] = l"
| "join_nl (l # ls) = l @ CHR 0x0A # join_nl ls"

subsection \<open>The host's parameter extraction\<close>

text \<open>
  \<^verbatim>\<open>getValue\<close> is inherited from the host application's \<^verbatim>\<open>Script\<close> class: no value
  when the key is missing or sits behind a \<^verbatim>\<open>;\<close>; otherwise the text after the first
  occurrence of the key is matched against \<^verbatim>\<open>^-?[0-9]+\.?[0-9]*\<close> and converted with
  \<^verbatim>\<open>int\<close>, or with \<^verbatim>\<open>float\<close> when \<^verbatim>\<open>int\<close> refuses it. The general statements about
  the compensator never unfold this definition: they hold for whatever \<^verbatim>\<open>getValue\<close>
  returns. Only the worked examples evaluate it.
\<close>

definition is_digit :: "char \<Rightarrow> bool" where
  "is_digit c = (c \<in> set ''0123456789'')"

text \<open>The match: the sign, the integer digits, and the fraction digits when a point follows.\<close>

definition number_match :: "string \<Rightarrow> (bool \<times> string \<times> string option) option" where
  "number_match s =
     (let neg = (case s of [] \<Rightarrow> False | c # cs \<Rightarrow> c = CHR ''-'');
          r = (if neg then tl s else s);
          ds = takeWhile is_digit r;
          r1 = dropWhile is_digit r
      in if ds = [] then None
         else case r1 of
           [] \<Rightarrow> Some (neg, ds, None)
         | c # r2 \<Rightarrow>
             if c = CHR ''.'' then Some (neg, ds, Some (takeWhile is_digit r2))
             else Some (neg, ds, None))"

definition digits_val :: "string \<Rightarrow> nat" where
  "digits_val ds = foldl (\<lambda>a c. 10 * a + (of_char c - 48)) 0 ds"

definition getValue :: "string \<Rightarrow> string \<Rightarrow> pynum option" where
  "getValue line key =
     (if find_idx line key = None \<or> (py_in '';'' line \<and> py_find line key > py_find line '';'')
      then None
      else case number_match (drop (nat (py_find line key + 1)) line) of
        None \<Rightarrow> None
      | Some (neg, ds, None) \<Rightarrow>
          Some (PInt (if neg then - int (digits_val ds) else int (digits_val ds)))
      | Some (neg, ds, Some fs) \<Rightarrow>
          Some (PFloat (if neg then - int (digits_val (ds @ fs)) else int (digits_val (ds @ fs)))
                  (length fs)))"

subsection \<open>The coordinate compensator\<close>

record factors =
  factor_xy :: real
  factor_xz :: real
  factor_yz :: real

text \<open>The four variables \<^verbatim>\<open>cura_compensation\<close> sets before its loops.\<close>

record pos =
  z_input :: pynum
  cur_x :: "pynum option"
  cur_y :: "pynum option"
  cur_z :: "pynum option"

definition pos0 :: pos where
  "pos0 = \<lparr>z_input = PInt 0, cur_x = Some (PInt 0), cur_y = Some (PInt 0), cur_z = Some (PInt 0)\<rparr>"

text \<open>One pass of the inner loop body, for the line \<open>line\<close> of layer \<open>layer_index\<close>.\<close>

definition compensate_line :: "factors \<Rightarrow> nat \<Rightarrow> pos \<Rightarrow> string \<Rightarrow> pos \<times> string" where
  "compensate_line f layer_index p line =
     (if prefix ''G0'' line \<or> prefix ''G1'' line then
        let cx = getValue line ''X'';
            cy = getValue line ''Y'';
            cz = getValue line ''Z'';
            x_input = (case cx of None \<Rightarrow> PInt 0 | Some v \<Rightarrow> v);
            y_input = (case cy of None \<Rightarrow> PInt 0 | Some v \<Rightarrow> v);
            z = (case cz of None \<Rightarrow> z_input p | Some v \<Rightarrow> v);
            x_out = round3 (num_val x_input - num_val y_input * factor_xy f);
            x_out = round3 (num_val x_out - num_val z * factor_xz f);
            y_out = round3 (num_val y_input - num_val z * factor_yz f);
            p' = \<lparr>z_input = z, cur_x = cx, cur_y = cy, cur_z = cz\<rparr>
        in if layer_index < 2 then (p', line)
           else
             let line1 = (case cx of None \<Rightarrow> line
                          | Some v \<Rightarrow> py_replace line (''X'' @ py_str v) (''X'' @ py_str x_out));
                 line2 = (case cy of None \<Rightarrow> line1
                          | Some v \<Rightarrow> py_replace line1 (''Y'' @ py_str v) (''Y'' @ py_str y_out))
             in (p', line2)
      else (p, line))"

fun compensate_lines :: "factors \<Rightarrow> nat \<Rightarrow> pos \<Rightarrow> string list \<Rightarrow> pos \<times> string list" where
  "compensate_lines f layer_index p [] = (p, [])"
| "compensate_lines f layer_index p (l # ls) =
     (case compensate_line f layer_index p l of (p1, l') \<Rightarrow>
      case compensate_lines f layer_index p1 ls of (p2, ls') \<Rightarrow> (p2, l' # ls'))"

text \<open>The outer loop, from layer \<open>layer_index\<close> on.\<close>

fun compensate_layers :: "factors \<Rightarrow> nat \<Rightarrow> pos \<Rightarrow> string list \<Rightarrow> pos \<times> string list" where
  "compensate_layers f layer_index p [] = (p, [])"
| "compensate_layers f layer_index p (layer # rest) =
     (case compensate_lines f layer_index p (split_nl layer) of (p1, lines) \<Rightarrow>
      case compensate_layers f (Suc layer_index) p1 rest of (p2, rest') \<Rightarrow>
        (p2, join_nl lines # rest'))"

definition cura_compensation :: "factors \<Rightarrow> string list \<Rightarrow> string list" where
  "cura_compensation f cura_data = snd (compensate_layers f 0 pos0 cura_data)"

subsection \<open>The Marlin command line\<close>

text \<open>
  \<^verbatim>\<open>f"{v:.8f}"\<close>: a finite value rounded to eight decimals, the sign kept even when the
  digits are all zero; \<^verbatim>\<open>inf\<close>, \<^verbatim>\<open>-inf\<close> and \<^verbatim>\<open>nan\<close> for the other floats.
\<close>

definition format_8f :: "real \<Rightarrow> string" where
  "format_8f v =
     (let k = nat (py_round (\<bar>v\<bar> * 10 ^ 8))
      in (if v < 0 then ''-'' else []) @ nat_digits (k div 10 ^ 8) @ ''.'' @ frac_digits 8 k)"

fun format_float_8f :: "pyfloat \<Rightarrow> string" where
  "format_float_8f (Finite v) = format_8f v"
| "format_float_8f PosInf = ''inf''"
| "format_float_8f NegInf = ''-inf''"
| "format_float_8f NaN = ''nan''"

definition PLUGIN_ID :: string where
  "PLUGIN_ID = ''PrintSkewCompensation''"

definition get_marlin_command :: "calc \<Rightarrow> string" where
  "get_marlin_command s =
     ''M852 I'' @ format_float_8f (marlin_I s) @ '' J'' @ format_float_8f (marlin_J s) @
     '' K'' @ format_float_8f (marlin_K s) @ '' ; '' @ PLUGIN_ID"

subsection \<open>The vocabulary of the statements\<close>

text \<open>
  The quarter formula in the words of the specification: \<^verbatim>\<open>0.0\<close> when a value does not
  convert to a finite number or \<^verbatim>\<open>ad <= 0\<close>, and \<^verbatim>\<open>(ac^2 - bd^2) / (4 ad^2)\<close> otherwise.
\<close>

definition quarter_spec :: "pyval \<Rightarrow> pyval \<Rightarrow> pyval \<Rightarrow> real" where
  "quarter_spec ac bd ad =
     (case (py_float ac, py_float bd, py_float ad) of
        (Inr (Finite a), Inr (Finite b), Inr (Finite d)) \<Rightarrow>
          if d \<le> 0 then 0 else (a\<^sup>2 - b\<^sup>2) / (4 * d\<^sup>2)
      | _ \<Rightarrow> 0)"

text \<open>The stored factors agree with the stored measurements.\<close>

definition consistent :: "calc \<Rightarrow> bool" where
  "consistent s =
     (marlin_I s = Finite (quarter_spec (xy_ac s) (xy_bd s) (xy_ad s)) \<and>
      marlin_J s = Finite (quarter_spec (xz_ac s) (xz_bd s) (xz_ad s)) \<and>
      marlin_K s = Finite (quarter_spec (yz_ac s) (yz_bd s) (yz_ad s)))"

text \<open>
  The calculators a client can hold: a fresh one, and any one after a call of
  \<^verbatim>\<open>set_measurements\<close>, whether the call returned or the client caught its exception
  (\<^verbatim>\<open>MeasurementDialogUI._calculate_and_update_display\<close> does, and keeps the object).
\<close>

inductive reachable :: "calc \<Rightarrow> bool" where
  reach_init: "init = Returns s \<Longrightarrow> reachable s"
| reach_set: "reachable s \<Longrightarrow> state_of (set_measurements m s) = s' \<Longrightarrow> reachable s'"

text \<open>A motion line: the test \<^verbatim>\<open>line.startswith(("G0", "G1"))\<close>.\<close>

definition is_move :: "string \<Rightarrow> bool" where
  "is_move line = (prefix ''G0'' line \<or> prefix ''G1'' line)"

text \<open>The input of an axis on a motion line: its value, or the \<^verbatim>\<open>0\<close> of the reset.\<close>

definition axis_value :: "pynum option \<Rightarrow> real" where
  "axis_value v = (case v of None \<Rightarrow> 0 | Some n \<Rightarrow> num_val n)"

text \<open>The corrected coordinates in the words of the specification.\<close>

definition x_out_spec :: "factors \<Rightarrow> real \<Rightarrow> real \<Rightarrow> real \<Rightarrow> pynum" where
  "x_out_spec f x y z = round3 (num_val (round3 (x - y * factor_xy f)) - z * factor_xz f)"

definition y_out_spec :: "factors \<Rightarrow> real \<Rightarrow> real \<Rightarrow> pynum" where
  "y_out_spec f y z = round3 (y - z * factor_yz f)"

text \<open>One guarded \<^verbatim>\<open>replace\<close> of the line: \<^verbatim>\<open>X<cur>\<close> by \<^verbatim>\<open>X<out>\<close> when the axis was read.\<close>

definition replace_axis :: "string \<Rightarrow> string \<Rightarrow> pynum option \<Rightarrow> pynum \<Rightarrow> string" where
  "replace_axis line key cur out =
     (case cur of None \<Rightarrow> line
      | Some v \<Rightarrow> py_replace line (key @ py_str v) (key @ py_str out))"

text \<open>The tracker after a line, and the rewritten text of a motion line at height \<open>z\<close>.\<close>

definition track :: "pos \<Rightarrow> string \<Rightarrow> pos" where
  "track p line =
     (if is_move line then
        \<lparr>z_input = (case getValue line ''Z'' of None \<Rightarrow> z_input p | Some v \<Rightarrow> v),
         cur_x = getValue line ''X'', cur_y = getValue line ''Y'', cur_z = getValue line ''Z''\<rparr>
      else p)"

definition rewrite :: "factors \<Rightarrow> real \<Rightarrow> string \<Rightarrow> string" where
  "rewrite f z line =
     (let cx = getValue line ''X''; cy = getValue line ''Y''
      in replace_axis
           (replace_axis line ''X'' cx (x_out_spec f (axis_value cx) (axis_value cy) z))
           ''Y'' cy (y_out_spec f (axis_value cy) z))"

text \<open>
  The tracker when line \<open>j\<close> of layer \<open>i\<close> is reached, and the text that line has in the
  output.
\<close>

definition pos_at :: "string list \<Rightarrow> nat \<Rightarrow> nat \<Rightarrow> pos" where
  "pos_at data i j =
     foldl track (foldl (\<lambda>p layer. foldl track p (split_nl layer)) pos0 (take i data))
       (take j (split_nl (data ! i)))"

definition out_line :: "factors \<Rightarrow> string list \<Rightarrow> nat \<Rightarrow> nat \<Rightarrow> string" where
  "out_line f data i j =
     snd (compensate_line f i (pos_at data i j) (split_nl (data ! i) ! j))"

text \<open>
  The height after a sequence of lines, in the words of the specification: the \<^verbatim>\<open>Z\<close> of
  the last motion line that has one, and the start value when there is none. The lines
  of a document that come before line \<open>j\<close> of layer \<open>i\<close>.
\<close>

definition last_z :: "pynum \<Rightarrow> string list \<Rightarrow> pynum" where
  "last_z z ls =
     foldl (\<lambda>z l. if is_move l then (case getValue l ''Z'' of None \<Rightarrow> z | Some v \<Rightarrow> v) else z)
       z ls"

definition lines_before :: "string list \<Rightarrow> nat \<Rightarrow> nat \<Rightarrow> string list" where
  "lines_before data i j =
     concat (map split_nl (take i data)) @ take j (split_nl (data ! i))"

text \<open>The digits after the decimal point of a printed number.\<close>

definition decimals :: "string \<Rightarrow> string" where
  "decimals s = tl (dropWhile (\<lambda>c. c \<noteq> CHR ''.'') s)"

section \<open>Properties\<close>

subsection \<open>Evaluating the printing functions on numerals\<close>

lemma strip_zeros_numeral:
  "strip_zeros m (numeral k) =
     (if m mod 10 = 0 then strip_zeros (m div 10) (pred_numeral k) else (m, numeral k))"
  using strip_zeros.simps(2) [of m "pred_numeral k"]
  by (simp only: numeral_eq_Suc [symmetric])

lemma frac_digits_numeral:
  "frac_digits (numeral k) n =
     frac_digits (pred_numeral k) (n div 10) @ [digit_char (n mod 10)]"
  using frac_digits.simps(2) [of "pred_numeral k" n]
  by (simp only: numeral_eq_Suc [symmetric])

lemmas ev_str = float_repr_def nat_digits.simps digit_char_def int_str_def
  strip_zeros_numeral frac_digits_numeral

lemmas ev_get = getValue_def py_find_def py_in_def number_match_def
  is_digit_def digits_val_def Let_def

lemmas ev_round = round3_def py_round_def Let_def

lemma format_8f_example: "format_8f (7 / 50) = ''0.14000000''"
  by (simp add: format_8f_def py_round_def Let_def nat_digits.simps digit_char_def
      frac_digits_numeral)

lemma format_8f_zero: "format_8f 0 = ''0.00000000''"
  by (simp add: format_8f_def py_round_def Let_def nat_digits.simps digit_char_def
      frac_digits_numeral)

subsection \<open>Lines, layers and the document\<close>

lemma split_nl_not_Nil: "split_nl s \<noteq> []"
  by (induction s) (auto split: list.splits)

lemma join_nl_Cons: "ls \<noteq> [] \<Longrightarrow> join_nl (l # ls) = l @ CHR 0x0A # join_nl ls"
  by (cases ls) auto

lemma join_nl_Cons_Cons: "join_nl ((c # l) # ls) = c # join_nl (l # ls)"
  by (cases ls) auto

lemma join_split: "join_nl (split_nl s) = s"
proof (induction s)
  case Nil
  show ?case by simp
next
  case (Cons c cs)
  show ?case
  proof (cases "c = CHR 0x0A")
    case True
    with Cons show ?thesis
      by (simp add: join_nl_Cons split_nl_not_Nil)
  next
    case False
    obtain l ls where sp: "split_nl cs = l # ls"
      using split_nl_not_Nil [of cs] by (cases "split_nl cs") auto
    with Cons False show ?thesis
      by (simp add: join_nl_Cons_Cons)
  qed
qed

lemma compensate_line_move:
  "is_move line \<Longrightarrow>
     compensate_line f li p line =
       (track p line,
        if li < 2 then line else rewrite f (num_val (z_input (track p line))) line)"
  by (auto simp add: compensate_line_def is_move_def track_def rewrite_def replace_axis_def
      axis_value_def x_out_spec_def y_out_spec_def Let_def split: option.splits)

lemma compensate_line_other: "\<not> is_move line \<Longrightarrow> compensate_line f li p line = (p, line)"
  by (simp add: compensate_line_def is_move_def)

lemma compensate_line_eq:
  "compensate_line f li p line =
     (track p line,
      if is_move line \<and> 2 \<le> li then rewrite f (num_val (z_input (track p line))) line
      else line)"
  by (cases "is_move line") (auto simp add: compensate_line_move compensate_line_other track_def)

lemma compensate_lines_eq:
  "compensate_lines f li p ls =
     (foldl track p ls,
      map (\<lambda>j. snd (compensate_line f li (foldl track p (take j ls)) (ls ! j))) [0..<length ls])"
proof (induction ls arbitrary: p)
  case Nil
  show ?case by simp
next
  case (Cons l ls)
  have m: "map (\<lambda>j. snd (compensate_line f li (foldl track p (take j (l # ls))) ((l # ls) ! j)))
             [0..<length (l # ls)]
         = snd (compensate_line f li p l) #
           map (\<lambda>j. snd (compensate_line f li (foldl track (track p l) (take j ls)) (ls ! j)))
             [0..<length ls]"
  proof -
    have u: "[0..<Suc (length ls)] = 0 # map Suc [0..<length ls]"
      by (simp add: upt_conv_Cons map_Suc_upt del: upt_Suc)
    show ?thesis
      unfolding length_Cons u by (simp add: comp_def)
  qed
  show ?case
    unfolding m by (simp add: Cons compensate_line_eq)
qed

lemma compensate_lines_low: "li < 2 \<Longrightarrow> snd (compensate_lines f li p ls) = ls"
  by (simp add: compensate_lines_eq compensate_line_eq map_nth)

lemma compensate_layers_eq:
  "compensate_layers f k p data =
     (foldl (\<lambda>p layer. foldl track p (split_nl layer)) p data,
      map (\<lambda>i. join_nl (snd (compensate_lines f (k + i)
                 (foldl (\<lambda>p layer. foldl track p (split_nl layer)) p (take i data))
                 (split_nl (data ! i))))) [0..<length data])"
proof (induction data arbitrary: k p)
  case Nil
  show ?case by simp
next
  case (Cons layer rest)
  have u: "[0..<Suc (length rest)] = 0 # map Suc [0..<length rest]"
    by (simp add: upt_conv_Cons map_Suc_upt del: upt_Suc)
  show ?case
    unfolding length_Cons u
    by (simp add: Cons compensate_lines_eq comp_def)
qed

lemma cura_compensation_length: "length (cura_compensation f data) = length data"
  by (simp add: cura_compensation_def compensate_layers_eq)

lemma cura_compensation_nth:
  "i < length data \<Longrightarrow>
     cura_compensation f data ! i =
       join_nl (map (out_line f data i) [0..<length (split_nl (data ! i))])"
  by (simp add: cura_compensation_def compensate_layers_eq compensate_lines_eq
      out_line_def [abs_def] pos_at_def)

lemma cura_compensation_low:
  "i < length data \<Longrightarrow> i < 2 \<Longrightarrow> cura_compensation f data ! i = data ! i"
  by (simp add: cura_compensation_def compensate_layers_eq compensate_lines_low join_split)

subsection \<open>Rounding and printing\<close>

lemma py_round_of_int: "py_round (of_int k) = k"
  by (simp add: py_round_def)

lemma round3_idem: "round3 (num_val (round3 v)) = round3 v"
  by (simp add: round3_def py_round_of_int)

lemma py_round_close: "\<bar>of_int (py_round v) - v\<bar> \<le> 1 / 2"
proof -
  have "of_int \<lfloor>v\<rfloor> \<le> v" "v < of_int \<lfloor>v\<rfloor> + 1"
    by linarith+
  then show ?thesis
    by (auto simp add: py_round_def Let_def)
qed

lemma round3_close: "\<bar>num_val (round3 v) - v\<bar> \<le> 1 / 2000"
proof -
  have "\<bar>of_int (py_round (v * 1000)) - v * 1000\<bar> \<le> 1 / 2"
    by (rule py_round_close)
  then show ?thesis
    by (simp add: round3_def field_simps abs_le_iff)
qed

lemma x_out_spec_zero:
  "factor_xy f = 0 \<Longrightarrow> factor_xz f = 0 \<Longrightarrow> x_out_spec f x y z = round3 x"
  by (simp add: x_out_spec_def round3_idem)

lemma y_out_spec_zero: "factor_yz f = 0 \<Longrightarrow> y_out_spec f y z = round3 y"
  by (simp add: y_out_spec_def)

lemma length_frac_digits: "length (frac_digits e a) = e"
  by (induction e arbitrary: a) auto

lemma strip_zeros_le: "strip_zeros a d = (a', e) \<Longrightarrow> e \<le> d"
  by (induction a d arbitrary: a' e rule: strip_zeros.induct) (auto split: if_splits)

lemma digit_char_is_digit: "is_digit (digit_char n)"
proof -
  have "n mod 10 < length ''0123456789''"
    by simp
  then have "''0123456789'' ! (n mod 10) \<in> set ''0123456789''"
    by (rule nth_mem)
  then show ?thesis
    by (simp only: is_digit_def digit_char_def)
qed

lemma nat_digits_digits: "c \<in> set (nat_digits n) \<Longrightarrow> is_digit c"
proof (induction n rule: nat_digits.induct)
  case (1 n)
  then show ?case
    by (subst (asm) nat_digits.simps) (auto simp add: digit_char_is_digit split: if_splits)
qed

lemma dot_not_digit: "is_digit c \<Longrightarrow> c \<noteq> CHR ''.''"
  by (auto simp add: is_digit_def)

lemma decimals_float_repr:
  "1 \<le> length (decimals (float_repr m d)) \<and> length (decimals (float_repr m d)) \<le> max 1 d"
proof -
  obtain a e where s: "strip_zeros (nat \<bar>m\<bar>) d = (a, e)"
    by (cases "strip_zeros (nat \<bar>m\<bar>) d")
  define ip where "ip = (if m < 0 then ''-'' else []) @ nat_digits (a div 10 ^ e)"
  define fp where "fp = (if e = 0 then ''0'' else frac_digits e a)"
  have r: "float_repr m d = ip @ CHR ''.'' # fp"
    by (simp add: float_repr_def s ip_def fp_def)
  have "\<forall>c \<in> set ip. c \<noteq> CHR ''.''"
    by (auto simp add: ip_def dest: nat_digits_digits dot_not_digit)
  then have "dropWhile (\<lambda>c. c \<noteq> CHR ''.'') (ip @ CHR ''.'' # fp) = CHR ''.'' # fp"
    by (simp add: dropWhile_append3)
  then have d: "decimals (float_repr m d) = fp"
    by (simp add: decimals_def r)
  from strip_zeros_le [OF s] show ?thesis
    by (auto simp add: d fp_def length_frac_digits)
qed

lemma decimals_round3:
  "1 \<le> length (decimals (py_str (round3 v))) \<and> length (decimals (py_str (round3 v))) \<le> 3"
  using decimals_float_repr [of "py_round (v * 1000)" 3] by (simp add: round3_def)

subsection \<open>A sample document\<close>

text \<open>
  Three layers: a header move, a move that sets \<open>Z = 10\<close>, and a layer with a full move,
  a move in X alone and a comment. The factors are \<open>1/2\<close>, \<open>1/2\<close> and \<open>1\<close>, which binary
  floats hold exactly.
\<close>

lemma getValue_A:
  "getValue ''G1 X10 Y20'' ''X'' = Some (PInt 10)"
  "getValue ''G1 X10 Y20'' ''Y'' = Some (PInt 20)"
  "getValue ''G1 X10 Y20'' ''Z'' = None"
  by (simp_all add: ev_get)

lemma getValue_B:
  "getValue ''G1 Z10'' ''X'' = None"
  "getValue ''G1 Z10'' ''Y'' = None"
  "getValue ''G1 Z10'' ''Z'' = Some (PInt 10)"
  by (simp_all add: ev_get)

lemma getValue_C:
  "getValue ''G1 X5'' ''X'' = Some (PInt 5)"
  "getValue ''G1 X5'' ''Y'' = None"
  "getValue ''G1 X5'' ''Z'' = None"
  by (simp_all add: ev_get)

lemmas ev_rewrite = rewrite_def replace_axis_def axis_value_def x_out_spec_def y_out_spec_def
  getValue_A getValue_B getValue_C ev_round ev_str py_replace.simps

lemma rewrite_A:
  "rewrite \<lparr>factor_xy = 1 / 2, factor_xz = 1 / 2, factor_yz = 1\<rparr> 10 ''G1 X10 Y20''
     = ''G1 X-5.0 Y10.0''"
  by (simp add: ev_rewrite)

lemma rewrite_B:
  "rewrite f z ''G1 Z10'' = ''G1 Z10''"
  by (simp add: ev_rewrite)

lemma rewrite_C:
  "rewrite \<lparr>factor_xy = 1 / 2, factor_xz = 1 / 2, factor_yz = 1\<rparr> 10 ''G1 X5'' = ''G1 X0.0''"
  by (simp add: ev_rewrite)

lemma rewrite_A_zero:
  "rewrite \<lparr>factor_xy = 0, factor_xz = 0, factor_yz = 0\<rparr> z ''G1 X10 Y20''
     = ''G1 X10.0 Y20.0''"
  by (simp add: ev_rewrite)

lemma rewrite_C_zero:
  "rewrite \<lparr>factor_xy = 0, factor_xz = 0, factor_yz = 0\<rparr> z ''G1 X5'' = ''G1 X5.0''"
  by (simp add: ev_rewrite)

lemmas ev_doc = cura_compensation_def compensate_line_eq track_def is_move_def pos0_def
  getValue_A getValue_B getValue_C rewrite_A rewrite_B rewrite_C rewrite_A_zero rewrite_C_zero

lemma sample_output:
  "cura_compensation \<lparr>factor_xy = 1 / 2, factor_xz = 1 / 2, factor_yz = 1\<rparr>
     [''G1 X10 Y20'', ''G1 Z10'', ''G1 X10 Y20\<newline>G1 X5\<newline>;TYPE:SKIN'']
   = [''G1 X10 Y20'', ''G1 Z10'', ''G1 X-5.0 Y10.0\<newline>G1 X0.0\<newline>;TYPE:SKIN'']"
  by (simp add: ev_doc)

lemma sample_output_zero:
  "cura_compensation \<lparr>factor_xy = 0, factor_xz = 0, factor_yz = 0\<rparr>
     [''G1 X10 Y20'', ''G1 Z10'', ''G1 X10 Y20\<newline>G1 X5\<newline>;TYPE:SKIN'']
   = [''G1 X10 Y20'', ''G1 Z10'', ''G1 X10.0 Y20.0\<newline>G1 X5.0\<newline>;TYPE:SKIN'']"
  by (simp add: ev_doc)

lemma getValue_E:
  "getValue '';TYPE:SKIN'' ''Z'' = None"
  by (simp_all add: ev_get)

subsection \<open>Lines without a Z parameter\<close>

lemma map_nth_fun: "map (\<lambda>j. g (ls ! j)) [0..<length ls] = map g ls"
proof -
  have "map (\<lambda>j. g (ls ! j)) [0..<length ls] = map g (map (\<lambda>j. ls ! j) [0..<length ls])"
    by (simp add: comp_def)
  then show ?thesis
    by (simp only: map_nth)
qed

lemma out_line_eq:
  "out_line f data i j =
     (if is_move (split_nl (data ! i) ! j) \<and> 2 \<le> i
      then rewrite f (num_val (z_input (track (pos_at data i j) (split_nl (data ! i) ! j))))
             (split_nl (data ! i) ! j)
      else split_nl (data ! i) ! j)"
  by (simp add: out_line_def compensate_line_eq)

lemma track_no_z: "getValue l ''Z'' = None \<Longrightarrow> z_input (track p l) = z_input p"
  by (simp add: track_def)

lemma lines_no_z:
  "\<forall>l\<in>set ls. getValue l ''Z'' = None \<Longrightarrow>
     z_input (foldl track p ls) = z_input p \<and>
     snd (compensate_lines f li p ls) =
       map (\<lambda>l. if is_move l \<and> 2 \<le> li then rewrite f (num_val (z_input p)) l else l) ls"
proof (induction ls arbitrary: p)
  case Nil
  show ?case by simp
next
  case (Cons l ls)
  then have z: "z_input (track p l) = z_input p"
    by (simp add: track_no_z)
  from Cons.prems have "\<forall>l\<in>set ls. getValue l ''Z'' = None"
    by simp
  from Cons.IH [OF this, of "track p l"] z show ?case
    by (simp add: compensate_line_eq case_prod_beta)
qed

lemma layers_no_z:
  "\<forall>layer\<in>set data. \<forall>l\<in>set (split_nl layer). getValue l ''Z'' = None \<Longrightarrow>
     z_input (fst (compensate_layers f k p data)) = z_input p"
proof (induction data arbitrary: k p)
  case Nil
  show ?case by simp
next
  case (Cons layer rest)
  from Cons.prems have "\<forall>l\<in>set (split_nl layer). getValue l ''Z'' = None"
    by simp
  then have z: "z_input (foldl track p (split_nl layer)) = z_input p"
    using lines_no_z by blast
  from Cons.prems have "\<forall>layer\<in>set rest. \<forall>l\<in>set (split_nl layer). getValue l ''Z'' = None"
    by simp
  from Cons.IH [OF this, of "Suc k" "foldl track p (split_nl layer)"] z show ?case
    by (simp add: compensate_lines_eq case_prod_beta)
qed

subsection \<open>The height carried by the tracker\<close>

lemma z_input_track:
  "z_input (track p l) =
     (if is_move l then (case getValue l ''Z'' of None \<Rightarrow> z_input p | Some v \<Rightarrow> v)
      else z_input p)"
  by (simp add: track_def)

lemma z_input_foldl_track: "z_input (foldl track p ls) = last_z (z_input p) ls"
proof (induction ls arbitrary: p)
  case Nil
  show ?case by (simp add: last_z_def)
next
  case (Cons l ls)
  have "z_input (foldl track (track p l) ls) = last_z (z_input (track p l)) ls"
    by (rule Cons.IH)
  then show ?case
    by (simp add: last_z_def z_input_track)
qed

lemma last_z_append: "last_z z (xs @ ys) = last_z (last_z z xs) ys"
  by (simp add: last_z_def)

lemma foldl_layers:
  "foldl (\<lambda>p layer. foldl track p (split_nl layer)) p data
     = foldl track p (concat (map split_nl data))"
  by (induction data arbitrary: p) simp_all

lemma pos_at_lines_before: "pos_at data i j = foldl track pos0 (lines_before data i j)"
  by (simp add: pos_at_def lines_before_def foldl_layers)

lemma z_at_line:
  "z_input (track (pos_at data i j) l) = last_z (PInt 0) (lines_before data i j @ [l])"
proof -
  have "track (pos_at data i j) l = foldl track pos0 (lines_before data i j @ [l])"
    by (simp add: pos_at_lines_before)
  then show ?thesis
    by (simp only: z_input_foldl_track) (simp add: pos0_def)
qed

lemma last_z_no_z:
  "\<forall>l\<in>set ls. is_move l \<longrightarrow> getValue l ''Z'' = None \<Longrightarrow> last_z z ls = z"
  by (induction ls) (auto simp add: last_z_def)

lemma getValue_F:
  "getValue ''G92 Z5'' ''Z'' = Some (PInt 5)"
  "getValue ''G92 Z7'' ''Z'' = Some (PInt 7)"
  by (simp_all add: ev_get)

lemma sample_output_z:
  "cura_compensation \<lparr>factor_xy = 1 / 2, factor_xz = 1 / 2, factor_yz = 1\<rparr>
     [''G1 Z10'', ''G92 Z5'', ''G1 X10 Y20\<newline>G92 Z7\<newline>G1 X5'']
   = [''G1 Z10'', ''G92 Z5'', ''G1 X-5.0 Y10.0\<newline>G92 Z7\<newline>G1 X0.0'']"
  by (simp add: ev_doc)

subsection \<open>The coordinate compensator\<close>

text \<open>
  C3. On a motion line the corrected coordinates are
  \<^verbatim>\<open>x_out = round(x_input - y_input * factor_xy, 3)\<close>, then
  \<^verbatim>\<open>x_out = round(x_out - z * factor_xz, 3)\<close>, and
  \<^verbatim>\<open>y_out = round(y_input - z * factor_yz, 3)\<close>, whatever the layer; from layer 2 on they
  replace the text of the axes the line has. Every line of the output document is the
  result of this step at the tracker state of its position, and \<^verbatim>\<open>round(v, 3)\<close> is the
  multiple of one thousandth nearest to \<open>v\<close>.
\<close>

theorem C3_shear_formula:
  "(is_move l \<longrightarrow>
      compensate_line f li p l =
        (let cx = getValue l ''X''; cy = getValue l ''Y''; cz = getValue l ''Z'';
             x_input = (case cx of None \<Rightarrow> 0 | Some v \<Rightarrow> num_val v);
             y_input = (case cy of None \<Rightarrow> 0 | Some v \<Rightarrow> num_val v);
             z = (case cz of None \<Rightarrow> z_input p | Some v \<Rightarrow> v);
             x_out = round3 (x_input - y_input * factor_xy f);
             x_out = round3 (num_val x_out - num_val z * factor_xz f);
             y_out = round3 (y_input - num_val z * factor_yz f)
         in (\<lparr>z_input = z, cur_x = cx, cur_y = cy, cur_z = cz\<rparr>,
             if li < 2 then l
             else replace_axis (replace_axis l ''X'' cx x_out) ''Y'' cy y_out)))
   \<and> (i < length data \<longrightarrow>
        cura_compensation f data ! i =
          join_nl (map (\<lambda>j. snd (compensate_line f i (pos_at data i j) (split_nl (data ! i) ! j)))
                     [0..<length (split_nl (data ! i))]))
   \<and> \<bar>num_val (round3 v) - v\<bar> \<le> 1 / 2000
   \<and> num_val (round3 v) = of_int (py_round (v * 1000)) / 1000"
proof -
  have a: "is_move l \<longrightarrow>
      compensate_line f li p l =
        (let cx = getValue l ''X''; cy = getValue l ''Y''; cz = getValue l ''Z'';
             x_input = (case cx of None \<Rightarrow> 0 | Some v \<Rightarrow> num_val v);
             y_input = (case cy of None \<Rightarrow> 0 | Some v \<Rightarrow> num_val v);
             z = (case cz of None \<Rightarrow> z_input p | Some v \<Rightarrow> v);
             x_out = round3 (x_input - y_input * factor_xy f);
             x_out = round3 (num_val x_out - num_val z * factor_xz f);
             y_out = round3 (y_input - num_val z * factor_yz f)
         in (\<lparr>z_input = z, cur_x = cx, cur_y = cy, cur_z = cz\<rparr>,
             if li < 2 then l
             else replace_axis (replace_axis l ''X'' cx x_out) ''Y'' cy y_out))"
    by (auto simp add: compensate_line_move track_def rewrite_def axis_value_def x_out_spec_def
        y_out_spec_def Let_def)
  have b: "i < length data \<longrightarrow>
        cura_compensation f data ! i =
          join_nl (map (\<lambda>j. snd (compensate_line f i (pos_at data i j) (split_nl (data ! i) ! j)))
                     [0..<length (split_nl (data ! i))])"
    using cura_compensation_nth [of i data f] by (simp add: out_line_def [abs_def])
  have c: "num_val (round3 v) = of_int (py_round (v * 1000)) / 1000"
    by (simp add: round3_def)
  from a b c round3_close [of v] show ?thesis
    by (simp only: simp_thms)
qed

theorem C3_shear_formula_witness:
  "is_move ''G1 X10 Y20''
   \<and> compensate_line \<lparr>factor_xy = 1 / 2, factor_xz = 1 / 2, factor_yz = 1\<rparr> 2
        \<lparr>z_input = PInt 10, cur_x = None, cur_y = None, cur_z = Some (PInt 10)\<rparr> ''G1 X10 Y20''
      = (\<lparr>z_input = PInt 10, cur_x = Some (PInt 10), cur_y = Some (PInt 20), cur_z = None\<rparr>,
         ''G1 X-5.0 Y10.0'')
   \<and> (2::nat) < length [''G1 X10 Y20'', ''G1 Z10'', ''G1 X10 Y20\<newline>G1 X5\<newline>;TYPE:SKIN'']
   \<and> cura_compensation \<lparr>factor_xy = 1 / 2, factor_xz = 1 / 2, factor_yz = 1\<rparr>
        [''G1 X10 Y20'', ''G1 Z10'', ''G1 X10 Y20\<newline>G1 X5\<newline>;TYPE:SKIN''] ! 2
      = ''G1 X-5.0 Y10.0\<newline>G1 X0.0\<newline>;TYPE:SKIN''"
proof -
  have m: "is_move ''G1 X10 Y20''"
    by (simp add: is_move_def)
  have r: "replace_axis (replace_axis ''G1 X10 Y20'' ''X'' (Some (PInt 10)) (PFloat (- 5000) 3))
             ''Y'' (Some (PInt 20)) (PFloat 10000 3) = ''G1 X-5.0 Y10.0''"
    by (simp add: replace_axis_def ev_str py_replace.simps)
  have l: "compensate_line \<lparr>factor_xy = 1 / 2, factor_xz = 1 / 2, factor_yz = 1\<rparr> 2
        \<lparr>z_input = PInt 10, cur_x = None, cur_y = None, cur_z = Some (PInt 10)\<rparr> ''G1 X10 Y20''
      = (\<lparr>z_input = PInt 10, cur_x = Some (PInt 10), cur_y = Some (PInt 20), cur_z = None\<rparr>,
         ''G1 X-5.0 Y10.0'')"
    using m C3_shear_formula [of "''G1 X10 Y20''"
        "\<lparr>factor_xy = 1 / 2, factor_xz = 1 / 2, factor_yz = 1\<rparr>" 2
        "\<lparr>z_input = PInt 10, cur_x = None, cur_y = None, cur_z = Some (PInt 10)\<rparr>" 0 "[]" 0]
    by (simp add: getValue_A ev_round r)
  from m l show ?thesis
    by (simp add: sample_output)
qed

text \<open>
  C4. The output has as many layers as the input, the layers with index 0 and 1 are
  returned as they came, a document of at most two layers is returned unchanged, and the
  tracker runs over the lines of every layer, the first two included.
\<close>

theorem C4_first_two_layers_untouched:
  "length (cura_compensation f data) = length data
   \<and> (i < length data \<and> i < 2 \<longrightarrow> cura_compensation f data ! i = data ! i)
   \<and> (length data \<le> 2 \<longrightarrow> cura_compensation f data = data)
   \<and> fst (compensate_lines f li p ls) = foldl track p ls"
proof -
  have a: "i < length data \<and> i < 2 \<longrightarrow> cura_compensation f data ! i = data ! i"
    by (simp add: cura_compensation_low)
  have b: "length data \<le> 2 \<longrightarrow> cura_compensation f data = data"
  proof
    assume s: "length data \<le> 2"
    show "cura_compensation f data = data"
    proof (rule nth_equalityI)
      show "length (cura_compensation f data) = length data"
        by (rule cura_compensation_length)
    next
      fix n
      assume "n < length (cura_compensation f data)"
      with s have "n < length data" "n < 2"
        by (simp_all add: cura_compensation_length)
      then show "cura_compensation f data ! n = data ! n"
        by (rule cura_compensation_low)
    qed
  qed
  from a b show ?thesis
    by (simp add: cura_compensation_length compensate_lines_eq)
qed

theorem C4_first_two_layers_untouched_witness:
  "length [''G1 X10 Y20'', ''G1 Z10''] \<le> 2
   \<and> cura_compensation \<lparr>factor_xy = 1 / 2, factor_xz = 1 / 2, factor_yz = 1\<rparr>
        [''G1 X10 Y20'', ''G1 Z10''] = [''G1 X10 Y20'', ''G1 Z10'']
   \<and> (1::nat) < length [''G1 X10 Y20'', ''G1 Z10'', ''G1 X10 Y20\<newline>G1 X5\<newline>;TYPE:SKIN'']
   \<and> cura_compensation \<lparr>factor_xy = 1 / 2, factor_xz = 1 / 2, factor_yz = 1\<rparr>
        [''G1 X10 Y20'', ''G1 Z10'', ''G1 X10 Y20\<newline>G1 X5\<newline>;TYPE:SKIN''] ! 1 = ''G1 Z10''
   \<and> z_input (fst (compensate_lines \<lparr>factor_xy = 1 / 2, factor_xz = 1 / 2, factor_yz = 1\<rparr>
        1 pos0 [''G1 Z10''])) = PInt 10"
  using C4_first_two_layers_untouched [of "\<lparr>factor_xy = 1 / 2, factor_xz = 1 / 2, factor_yz = 1\<rparr>"
      "[''G1 X10 Y20'', ''G1 Z10'']" 0 1 pos0 "[''G1 Z10'']"]
    C4_first_two_layers_untouched [of "\<lparr>factor_xy = 1 / 2, factor_xz = 1 / 2, factor_yz = 1\<rparr>"
      "[''G1 X10 Y20'', ''G1 Z10'', ''G1 X10 Y20\<newline>G1 X5\<newline>;TYPE:SKIN'']" 1 1 pos0 "[''G1 Z10'']"]
  by (simp add: track_def is_move_def getValue_B)

text \<open>
  C5. \<^verbatim>\<open>z_input\<close> changes on a motion line that has a \<^verbatim>\<open>Z\<close> parameter and on no other
  line (a \<^verbatim>\<open>Z\<close> on a line that is not a \<^verbatim>\<open>G0\<close>/\<^verbatim>\<open>G1\<close> move is not read). It is carried over
  the lines of a layer and from one layer to the next: after any sequence of lines it is
  the \<^verbatim>\<open>Z\<close> of the last motion line that had one, counted from the start of the
  document, and that value is the \<open>z\<close> in the shear of every motion line of the output.
  After a move with \<^verbatim>\<open>Z10\<close> it stays \<open>10\<close> as long as no motion line brings a new \<^verbatim>\<open>Z\<close>.
  The X and Y inputs of a line are read from that line alone, \<^verbatim>\<open>0\<close> standing for an axis
  the line does not have.
\<close>

theorem C5_z_cumulative:
  "z_input (fst (compensate_line f li p l)) =
     (if is_move l then (case getValue l ''Z'' of None \<Rightarrow> z_input p | Some v \<Rightarrow> v)
      else z_input p)
   \<and> z_input (fst (compensate_lines f li p ls)) = last_z (z_input p) ls
   \<and> snd (compensate_lines f li p ls) =
       map (\<lambda>j. if is_move (ls ! j) \<and> 2 \<le> li
                then rewrite f (num_val (last_z (z_input p) (take (Suc j) ls))) (ls ! j)
                else ls ! j) [0..<length ls]
   \<and> z_input (fst (compensate_layers f k p data)) =
       last_z (z_input p) (concat (map split_nl data))
   \<and> (i < length data \<longrightarrow>
        cura_compensation f data ! i =
          join_nl (map (\<lambda>j. if is_move (split_nl (data ! i) ! j) \<and> 2 \<le> i
                            then rewrite f
                                   (num_val (last_z (PInt 0)
                                      (lines_before data i j @ [split_nl (data ! i) ! j])))
                                   (split_nl (data ! i) ! j)
                            else split_nl (data ! i) ! j)
                     [0..<length (split_nl (data ! i))]))
   \<and> (is_move l0 \<and> getValue l0 ''Z'' = Some (PInt 10)
        \<and> (\<forall>l\<in>set ls. is_move l \<longrightarrow> getValue l ''Z'' = None) \<longrightarrow>
        last_z z (l0 # ls) = PInt 10)
   \<and> rewrite f h l =
        (let cx = getValue l ''X''; cy = getValue l ''Y'';
             x_input = (case cx of None \<Rightarrow> 0 | Some n \<Rightarrow> num_val n);
             y_input = (case cy of None \<Rightarrow> 0 | Some n \<Rightarrow> num_val n);
             x_out = round3 (x_input - y_input * factor_xy f);
             x_out = round3 (num_val x_out - h * factor_xz f);
             y_out = round3 (y_input - h * factor_yz f)
         in replace_axis (replace_axis l ''X'' cx x_out) ''Y'' cy y_out)"
proof -
  have a: "z_input (fst (compensate_line f li p l)) =
     (if is_move l then (case getValue l ''Z'' of None \<Rightarrow> z_input p | Some v \<Rightarrow> v)
      else z_input p)"
    by (simp add: compensate_line_eq z_input_track)
  have b: "z_input (fst (compensate_lines f li p ls)) = last_z (z_input p) ls"
    by (simp add: compensate_lines_eq z_input_foldl_track)
  have c: "snd (compensate_lines f li p ls) =
       map (\<lambda>j. if is_move (ls ! j) \<and> 2 \<le> li
                then rewrite f (num_val (last_z (z_input p) (take (Suc j) ls))) (ls ! j)
                else ls ! j) [0..<length ls]"
  proof -
    have "\<And>j. j < length ls \<Longrightarrow>
        z_input (track (foldl track p (take j ls)) (ls ! j))
          = last_z (z_input p) (take (Suc j) ls)"
    proof -
      fix j
      assume j: "j < length ls"
      have "track (foldl track p (take j ls)) (ls ! j) = foldl track p (take j ls @ [ls ! j])"
        by simp
      also have "\<dots> = foldl track p (take (Suc j) ls)"
        using j by (simp only: take_Suc_conv_app_nth)
      finally show "z_input (track (foldl track p (take j ls)) (ls ! j))
          = last_z (z_input p) (take (Suc j) ls)"
        by (simp only: z_input_foldl_track)
    qed
    then show ?thesis
      by (simp add: compensate_lines_eq compensate_line_eq)
  qed
  have d: "z_input (fst (compensate_layers f k p data)) =
       last_z (z_input p) (concat (map split_nl data))"
    by (simp add: compensate_layers_eq foldl_layers z_input_foldl_track)
  have e: "i < length data \<longrightarrow>
        cura_compensation f data ! i =
          join_nl (map (\<lambda>j. if is_move (split_nl (data ! i) ! j) \<and> 2 \<le> i
                            then rewrite f
                                   (num_val (last_z (PInt 0)
                                      (lines_before data i j @ [split_nl (data ! i) ! j])))
                                   (split_nl (data ! i) ! j)
                            else split_nl (data ! i) ! j)
                     [0..<length (split_nl (data ! i))])"
  proof -
    have o: "out_line f data i =
        (\<lambda>j. if is_move (split_nl (data ! i) ! j) \<and> 2 \<le> i
             then rewrite f
                    (num_val (last_z (PInt 0)
                       (lines_before data i j @ [split_nl (data ! i) ! j])))
                    (split_nl (data ! i) ! j)
             else split_nl (data ! i) ! j)"
      by (rule ext) (simp only: out_line_eq z_at_line)
    show ?thesis
      using cura_compensation_nth [of i data f] unfolding o by blast
  qed
  have g: "is_move l0 \<and> getValue l0 ''Z'' = Some (PInt 10)
        \<and> (\<forall>l\<in>set ls. is_move l \<longrightarrow> getValue l ''Z'' = None) \<longrightarrow>
        last_z z (l0 # ls) = PInt 10"
  proof
    assume h: "is_move l0 \<and> getValue l0 ''Z'' = Some (PInt 10)
        \<and> (\<forall>l\<in>set ls. is_move l \<longrightarrow> getValue l ''Z'' = None)"
    then have n: "\<forall>l\<in>set ls. is_move l \<longrightarrow> getValue l ''Z'' = None"
      by simp
    have "last_z z (l0 # ls) = last_z (last_z z [l0]) ls"
      using last_z_append [of z "[l0]" ls] by simp
    also have "last_z z [l0] = PInt 10"
      using h by (simp add: last_z_def)
    finally show "last_z z (l0 # ls) = PInt 10"
      by (simp only: last_z_no_z [OF n])
  qed
  have r: "rewrite f h l =
        (let cx = getValue l ''X''; cy = getValue l ''Y'';
             x_input = (case cx of None \<Rightarrow> 0 | Some n \<Rightarrow> num_val n);
             y_input = (case cy of None \<Rightarrow> 0 | Some n \<Rightarrow> num_val n);
             x_out = round3 (x_input - y_input * factor_xy f);
             x_out = round3 (num_val x_out - h * factor_xz f);
             y_out = round3 (y_input - h * factor_yz f)
         in replace_axis (replace_axis l ''X'' cx x_out) ''Y'' cy y_out)"
    by (simp add: rewrite_def axis_value_def x_out_spec_def y_out_spec_def Let_def)
  from a b c d e g r show ?thesis
    by (simp only: simp_thms)
qed

theorem C5_z_cumulative_witness:
  "is_move ''G1 Z10'' \<and> getValue ''G1 Z10'' ''Z'' = Some (PInt 10)
   \<and> \<not> is_move ''G92 Z5'' \<and> getValue ''G92 Z5'' ''Z'' = Some (PInt 5)
   \<and> is_move ''G1 X10 Y20'' \<and> getValue ''G1 X10 Y20'' ''Z'' = None
   \<and> \<not> is_move ''G92 Z7'' \<and> getValue ''G92 Z7'' ''Z'' = Some (PInt 7)
   \<and> is_move ''G1 X5'' \<and> getValue ''G1 X5'' ''Z'' = None
   \<and> last_z (PInt 0) [''G1 Z10'', ''G92 Z5'', ''G1 X10 Y20'', ''G92 Z7'', ''G1 X5''] = PInt 10
   \<and> z_input (fst (compensate_line \<lparr>factor_xy = 1 / 2, factor_xz = 1 / 2, factor_yz = 1\<rparr> 1
        \<lparr>z_input = PInt 10, cur_x = None, cur_y = None, cur_z = Some (PInt 10)\<rparr> ''G92 Z5''))
      = PInt 10
   \<and> (2::nat) < length [''G1 Z10'', ''G92 Z5'', ''G1 X10 Y20\<newline>G92 Z7\<newline>G1 X5'']
   \<and> cura_compensation \<lparr>factor_xy = 1 / 2, factor_xz = 1 / 2, factor_yz = 1\<rparr>
        [''G1 Z10'', ''G92 Z5'', ''G1 X10 Y20\<newline>G92 Z7\<newline>G1 X5''] ! 2
      = ''G1 X-5.0 Y10.0\<newline>G92 Z7\<newline>G1 X0.0''
   \<and> z_input (fst (compensate_layers \<lparr>factor_xy = 1 / 2, factor_xz = 1 / 2, factor_yz = 1\<rparr> 0
        pos0 [''G1 Z10'', ''G92 Z5'', ''G1 X10 Y20\<newline>G92 Z7\<newline>G1 X5''])) = PInt 10"
proof -
  have m: "is_move ''G1 Z10''" "\<not> is_move ''G92 Z5''" "is_move ''G1 X10 Y20''"
    "\<not> is_move ''G92 Z7''" "is_move ''G1 X5''"
    by (simp_all add: is_move_def)
  have h: "\<forall>l\<in>set [''G92 Z5'', ''G1 X10 Y20'', ''G92 Z7'', ''G1 X5''].
      is_move l \<longrightarrow> getValue l ''Z'' = None"
    by (simp add: m getValue_A getValue_C)
  have sp: "split_nl ''G1 X10 Y20\<newline>G92 Z7\<newline>G1 X5'' = [''G1 X10 Y20'', ''G92 Z7'', ''G1 X5'']"
    "split_nl ''G1 Z10'' = [''G1 Z10'']" "split_nl ''G92 Z5'' = [''G92 Z5'']"
    by simp_all
  from m h
    C5_z_cumulative [of "\<lparr>factor_xy = 1 / 2, factor_xz = 1 / 2, factor_yz = 1\<rparr>" 1
      "\<lparr>z_input = PInt 10, cur_x = None, cur_y = None, cur_z = Some (PInt 10)\<rparr>" "''G92 Z5''"
      "[''G92 Z5'', ''G1 X10 Y20'', ''G92 Z7'', ''G1 X5'']" 0
      "[''G1 Z10'', ''G92 Z5'', ''G1 X10 Y20\<newline>G92 Z7\<newline>G1 X5'']" 2 "''G1 Z10''" "PInt 0" 10]
    C5_z_cumulative [of "\<lparr>factor_xy = 1 / 2, factor_xz = 1 / 2, factor_yz = 1\<rparr>" 1
      pos0 "''G92 Z5''"
      "[''G92 Z5'', ''G1 X10 Y20'', ''G92 Z7'', ''G1 X5'']" 0
      "[''G1 Z10'', ''G92 Z5'', ''G1 X10 Y20\<newline>G92 Z7\<newline>G1 X5'']" 2 "''G1 Z10''" "PInt 0" 10]
  show ?thesis
    by (simp add: getValue_A getValue_B getValue_C getValue_F sample_output_z pos0_def sp
        last_z_def)
qed

text \<open>
  C7. The claim makes all three axes cumulative. In the code only \<^verbatim>\<open>z_input\<close> is: on
  each motion line \<^verbatim>\<open>cur_x\<close>, \<^verbatim>\<open>cur_y\<close> and \<^verbatim>\<open>cur_z\<close> become what the line supplies
  (\<^verbatim>\<open>None\<close> for a missing axis), the X and Y inputs of the shear are the line's own
  values or \<^verbatim>\<open>0\<close>, and the rewritten text depends on earlier lines through \<^verbatim>\<open>z_input\<close>
  only.
\<close>

theorem C7_only_z_persists:
  "(is_move l \<longrightarrow>
      fst (compensate_line f li p l) =
        \<lparr>z_input = (case getValue l ''Z'' of None \<Rightarrow> z_input p | Some v \<Rightarrow> v),
         cur_x = getValue l ''X'', cur_y = getValue l ''Y'', cur_z = getValue l ''Z''\<rparr>)
   \<and> (\<not> is_move l \<longrightarrow> compensate_line f li p l = (p, l))
   \<and> (z_input q = z_input p \<longrightarrow>
        snd (compensate_line f li q l) = snd (compensate_line f li p l))
   \<and> (is_move l \<and> 2 \<le> li \<and> getValue l ''X'' = Some v \<and> getValue l ''Y'' = None \<longrightarrow>
        snd (compensate_line f li p l) =
          py_replace l (''X'' @ py_str v)
            (''X'' @ py_str (round3 (num_val (round3 (num_val v - 0 * factor_xy f))
               - num_val (case getValue l ''Z'' of None \<Rightarrow> z_input p | Some w \<Rightarrow> w)
                 * factor_xz f))))
   \<and> (is_move l \<and> 2 \<le> li \<and> getValue l ''X'' = None \<and> getValue l ''Y'' = Some v \<longrightarrow>
        snd (compensate_line f li p l) =
          py_replace l (''Y'' @ py_str v)
            (''Y'' @ py_str (round3 (num_val v
               - num_val (case getValue l ''Z'' of None \<Rightarrow> z_input p | Some w \<Rightarrow> w)
                 * factor_yz f))))"
proof -
  have a: "is_move l \<longrightarrow>
      fst (compensate_line f li p l) =
        \<lparr>z_input = (case getValue l ''Z'' of None \<Rightarrow> z_input p | Some v \<Rightarrow> v),
         cur_x = getValue l ''X'', cur_y = getValue l ''Y'', cur_z = getValue l ''Z''\<rparr>"
    by (simp add: compensate_line_eq track_def)
  have b: "\<not> is_move l \<longrightarrow> compensate_line f li p l = (p, l)"
    by (simp add: compensate_line_other)
  have c: "z_input q = z_input p \<longrightarrow>
        snd (compensate_line f li q l) = snd (compensate_line f li p l)"
    by (auto simp add: compensate_line_eq track_def split: option.splits)
  have d: "is_move l \<and> 2 \<le> li \<and> getValue l ''X'' = Some v \<and> getValue l ''Y'' = None \<longrightarrow>
        snd (compensate_line f li p l) =
          py_replace l (''X'' @ py_str v)
            (''X'' @ py_str (round3 (num_val (round3 (num_val v - 0 * factor_xy f))
               - num_val (case getValue l ''Z'' of None \<Rightarrow> z_input p | Some w \<Rightarrow> w)
                 * factor_xz f)))"
    by (simp add: compensate_line_eq track_def rewrite_def replace_axis_def axis_value_def
        x_out_spec_def)
  have e: "is_move l \<and> 2 \<le> li \<and> getValue l ''X'' = None \<and> getValue l ''Y'' = Some v \<longrightarrow>
        snd (compensate_line f li p l) =
          py_replace l (''Y'' @ py_str v)
            (''Y'' @ py_str (round3 (num_val v
               - num_val (case getValue l ''Z'' of None \<Rightarrow> z_input p | Some w \<Rightarrow> w)
                 * factor_yz f)))"
    by (simp add: compensate_line_eq track_def rewrite_def replace_axis_def axis_value_def
        y_out_spec_def)
  from a b c d e show ?thesis
    by (simp only: simp_thms)
qed

theorem C7_only_z_persists_witness:
  "is_move ''G1 X5'' \<and> getValue ''G1 X5'' ''X'' = Some (PInt 5) \<and> getValue ''G1 X5'' ''Y'' = None
   \<and> compensate_line \<lparr>factor_xy = 1 / 2, factor_xz = 1 / 2, factor_yz = 1\<rparr> 2
        \<lparr>z_input = PInt 10, cur_x = Some (PInt 10), cur_y = Some (PInt 20), cur_z = None\<rparr>
        ''G1 X5''
      = (\<lparr>z_input = PInt 10, cur_x = Some (PInt 5), cur_y = None, cur_z = None\<rparr>, ''G1 X0.0'')"
proof -
  have m: "is_move ''G1 X5''"
    by (simp add: is_move_def)
  have r: "py_replace ''G1 X5'' ''X5'' ''X0.0'' = ''G1 X0.0''"
    by (simp add: py_replace.simps)
  from m C7_only_z_persists [of "''G1 X5''"
      "\<lparr>factor_xy = 1 / 2, factor_xz = 1 / 2, factor_yz = 1\<rparr>" 2
      "\<lparr>z_input = PInt 10, cur_x = Some (PInt 10), cur_y = Some (PInt 20), cur_z = None\<rparr>"
      "\<lparr>z_input = PInt 10, cur_x = Some (PInt 10), cur_y = Some (PInt 20), cur_z = None\<rparr>"
      "PInt 5"]
  show ?thesis
    by (simp add: getValue_C ev_round ev_str r prod_eq_iff)
qed

text \<open>
  After \<^verbatim>\<open>G1 X10 Y20\<close> the line \<^verbatim>\<open>G1 X5\<close> is sheared with \<open>y = 0\<close> and becomes
  \<^verbatim>\<open>G1 X0.0\<close>; with the last-seen \<open>Y = 20\<close> it would have become \<^verbatim>\<open>G1 X-10.0\<close>. The
  tracker holds no Y after that line.
\<close>

theorem C7_position_counterexample:
  "cur_y (pos_at [''G1 X10 Y20'', ''G1 Z10'', ''G1 X10 Y20\<newline>G1 X5\<newline>;TYPE:SKIN''] 2 1)
     = Some (PInt 20)
   \<and> cur_y (pos_at [''G1 X10 Y20'', ''G1 Z10'', ''G1 X10 Y20\<newline>G1 X5\<newline>;TYPE:SKIN''] 2 2)
     = None
   \<and> cura_compensation \<lparr>factor_xy = 1 / 2, factor_xz = 1 / 2, factor_yz = 1\<rparr>
        [''G1 X10 Y20'', ''G1 Z10'', ''G1 X10 Y20\<newline>G1 X5\<newline>;TYPE:SKIN''] ! 2
      = ''G1 X-5.0 Y10.0\<newline>G1 X0.0\<newline>;TYPE:SKIN''
   \<and> py_str (x_out_spec \<lparr>factor_xy = 1 / 2, factor_xz = 1 / 2, factor_yz = 1\<rparr> 5 0 10) = ''0.0''
   \<and> py_str (x_out_spec \<lparr>factor_xy = 1 / 2, factor_xz = 1 / 2, factor_yz = 1\<rparr> 5 20 10)
      = ''-10.0''"
proof -
  have t: "take 2 [''G1 X10 Y20'', ''G1 Z10'', ''G1 X10 Y20\<newline>G1 X5\<newline>;TYPE:SKIN'']
      = [''G1 X10 Y20'', ''G1 Z10'']"
    by simp
  have p1: "cur_y (pos_at [''G1 X10 Y20'', ''G1 Z10'', ''G1 X10 Y20\<newline>G1 X5\<newline>;TYPE:SKIN''] 2 1)
     = Some (PInt 20)"
    by (simp add: pos_at_def t track_def is_move_def getValue_A getValue_B getValue_C)
  have p2: "cur_y (pos_at [''G1 X10 Y20'', ''G1 Z10'', ''G1 X10 Y20\<newline>G1 X5\<newline>;TYPE:SKIN''] 2 2)
     = None"
    by (simp add: pos_at_def t track_def is_move_def getValue_A getValue_B getValue_C)
  have x: "py_str (x_out_spec \<lparr>factor_xy = 1 / 2, factor_xz = 1 / 2, factor_yz = 1\<rparr> 5 0 10)
      = ''0.0''"
    "py_str (x_out_spec \<lparr>factor_xy = 1 / 2, factor_xz = 1 / 2, factor_yz = 1\<rparr> 5 20 10)
      = ''-10.0''"
    by (simp_all add: x_out_spec_def ev_round ev_str)
  from p1 p2 x show ?thesis
    by (simp add: sample_output)
qed

text \<open>
  C8. The claim asks for exactly three decimal digits. The code prints the rounded value
  with Python's default float format, which gives one to three digits after the point.
  Each output layer is the join of its output lines; a line of layer 0 or 1 and a line
  that is no move are unchanged; a move line from layer 2 on goes through
  \<^verbatim>\<open>replace("X<cur_x>", "X<x_out>")\<close> when X was read, then through
  \<^verbatim>\<open>replace("Y<cur_y>", "Y<y_out>")\<close> when Y was read.
\<close>

theorem C8_text_replacement:
  "(i < length data \<longrightarrow>
      cura_compensation f data ! i =
        join_nl (map (out_line f data i) [0..<length (split_nl (data ! i))]))
   \<and> (i < 2 \<longrightarrow> out_line f data i j = split_nl (data ! i) ! j)
   \<and> (\<not> is_move (split_nl (data ! i) ! j) \<longrightarrow> out_line f data i j = split_nl (data ! i) ! j)
   \<and> (2 \<le> i \<and> is_move (split_nl (data ! i) ! j) \<longrightarrow>
        out_line f data i j =
          (let l = split_nl (data ! i) ! j;
               cx = getValue l ''X''; cy = getValue l ''Y'';
               z = num_val (z_input (track (pos_at data i j) l));
               x_out = x_out_spec f (axis_value cx) (axis_value cy) z;
               y_out = y_out_spec f (axis_value cy) z;
               l1 = (case cx of None \<Rightarrow> l
                     | Some c \<Rightarrow> py_replace l (''X'' @ py_str c) (''X'' @ py_str x_out))
           in case cy of None \<Rightarrow> l1
              | Some c \<Rightarrow> py_replace l1 (''Y'' @ py_str c) (''Y'' @ py_str y_out)))
   \<and> 1 \<le> length (decimals (py_str (x_out_spec f x y z)))
   \<and> length (decimals (py_str (x_out_spec f x y z))) \<le> 3
   \<and> 1 \<le> length (decimals (py_str (y_out_spec f y z)))
   \<and> length (decimals (py_str (y_out_spec f y z))) \<le> 3"
proof -
  have a: "i < length data \<longrightarrow>
      cura_compensation f data ! i =
        join_nl (map (out_line f data i) [0..<length (split_nl (data ! i))])"
    by (simp add: cura_compensation_nth)
  have b: "i < 2 \<longrightarrow> out_line f data i j = split_nl (data ! i) ! j"
    by (simp add: out_line_eq)
  have c: "\<not> is_move (split_nl (data ! i) ! j) \<longrightarrow> out_line f data i j = split_nl (data ! i) ! j"
    by (simp add: out_line_eq)
  have d: "2 \<le> i \<and> is_move (split_nl (data ! i) ! j) \<longrightarrow>
        out_line f data i j =
          (let l = split_nl (data ! i) ! j;
               cx = getValue l ''X''; cy = getValue l ''Y'';
               z = num_val (z_input (track (pos_at data i j) l));
               x_out = x_out_spec f (axis_value cx) (axis_value cy) z;
               y_out = y_out_spec f (axis_value cy) z;
               l1 = (case cx of None \<Rightarrow> l
                     | Some c \<Rightarrow> py_replace l (''X'' @ py_str c) (''X'' @ py_str x_out))
           in case cy of None \<Rightarrow> l1
              | Some c \<Rightarrow> py_replace l1 (''Y'' @ py_str c) (''Y'' @ py_str y_out))"
    by (simp add: out_line_eq rewrite_def replace_axis_def Let_def)
  have e: "1 \<le> length (decimals (py_str (x_out_spec f x y z)))
      \<and> length (decimals (py_str (x_out_spec f x y z))) \<le> 3"
    unfolding x_out_spec_def by (rule decimals_round3)
  have g: "1 \<le> length (decimals (py_str (y_out_spec f y z)))
      \<and> length (decimals (py_str (y_out_spec f y z))) \<le> 3"
    unfolding y_out_spec_def by (rule decimals_round3)
  from a b c d e g show ?thesis
    by (simp only: simp_thms)
qed

theorem C8_text_replacement_witness:
  "(2::nat) < length [''G1 X10 Y20'', ''G1 Z10'', ''G1 X10 Y20\<newline>G1 X5\<newline>;TYPE:SKIN'']
   \<and> is_move (split_nl ([''G1 X10 Y20'', ''G1 Z10'', ''G1 X10 Y20\<newline>G1 X5\<newline>;TYPE:SKIN''] ! 2) ! 0)
   \<and> out_line \<lparr>factor_xy = 1 / 2, factor_xz = 1 / 2, factor_yz = 1\<rparr>
        [''G1 X10 Y20'', ''G1 Z10'', ''G1 X10 Y20\<newline>G1 X5\<newline>;TYPE:SKIN''] 2 0
      = ''G1 X-5.0 Y10.0''
   \<and> \<not> is_move (split_nl ([''G1 X10 Y20'', ''G1 Z10'', ''G1 X10 Y20\<newline>G1 X5\<newline>;TYPE:SKIN''] ! 2) ! 2)
   \<and> out_line \<lparr>factor_xy = 1 / 2, factor_xz = 1 / 2, factor_yz = 1\<rparr>
        [''G1 X10 Y20'', ''G1 Z10'', ''G1 X10 Y20\<newline>G1 X5\<newline>;TYPE:SKIN''] 2 2
      = '';TYPE:SKIN''
   \<and> out_line \<lparr>factor_xy = 1 / 2, factor_xz = 1 / 2, factor_yz = 1\<rparr>
        [''G1 X10 Y20'', ''G1 Z10'', ''G1 X10 Y20\<newline>G1 X5\<newline>;TYPE:SKIN''] 0 0
      = ''G1 X10 Y20''"
proof -
  have t: "take 2 [''G1 X10 Y20'', ''G1 Z10'', ''G1 X10 Y20\<newline>G1 X5\<newline>;TYPE:SKIN'']
      = [''G1 X10 Y20'', ''G1 Z10'']"
    by simp
  have p: "z_input (pos_at [''G1 X10 Y20'', ''G1 Z10'', ''G1 X10 Y20\<newline>G1 X5\<newline>;TYPE:SKIN''] 2 0)
      = PInt 10"
    by (simp add: pos_at_def t track_def is_move_def getValue_A getValue_B)
  have r: "py_replace ''G1 X10 Y20'' ''X10'' ''X-5.0'' = ''G1 X-5.0 Y20''"
    "py_replace ''G1 X-5.0 Y20'' ''Y20'' ''Y10.0'' = ''G1 X-5.0 Y10.0''"
    by (simp_all add: py_replace.simps)
  from C8_text_replacement [of 2
      "[''G1 X10 Y20'', ''G1 Z10'', ''G1 X10 Y20\<newline>G1 X5\<newline>;TYPE:SKIN'']"
      "\<lparr>factor_xy = 1 / 2, factor_xz = 1 / 2, factor_yz = 1\<rparr>" 0 0 0 0]
    C8_text_replacement [of 2
      "[''G1 X10 Y20'', ''G1 Z10'', ''G1 X10 Y20\<newline>G1 X5\<newline>;TYPE:SKIN'']"
      "\<lparr>factor_xy = 1 / 2, factor_xz = 1 / 2, factor_yz = 1\<rparr>" 2 0 0 0]
    C8_text_replacement [of 0
      "[''G1 X10 Y20'', ''G1 Z10'', ''G1 X10 Y20\<newline>G1 X5\<newline>;TYPE:SKIN'']"
      "\<lparr>factor_xy = 1 / 2, factor_xz = 1 / 2, factor_yz = 1\<rparr>" 0 0 0 0]
  show ?thesis
    by (simp add: is_move_def track_def p getValue_A axis_value_def x_out_spec_def
        y_out_spec_def ev_round ev_str r)
qed

text \<open>
  In layer 2 the line \<^verbatim>\<open>G1 X10 Y20\<close> becomes \<^verbatim>\<open>G1 X-5.0 Y10.0\<close>, not
  \<^verbatim>\<open>G1 X-5.000 Y10.000\<close>.
\<close>

theorem C8_three_digits_counterexample:
  "cura_compensation \<lparr>factor_xy = 1 / 2, factor_xz = 1 / 2, factor_yz = 1\<rparr>
     [''G1 X10 Y20'', ''G1 Z10'', ''G1 X10 Y20\<newline>G1 X5\<newline>;TYPE:SKIN'']
   = [''G1 X10 Y20'', ''G1 Z10'', ''G1 X-5.0 Y10.0\<newline>G1 X0.0\<newline>;TYPE:SKIN'']
   \<and> cura_compensation \<lparr>factor_xy = 1 / 2, factor_xz = 1 / 2, factor_yz = 1\<rparr>
     [''G1 X10 Y20'', ''G1 Z10'', ''G1 X10 Y20\<newline>G1 X5\<newline>;TYPE:SKIN'']
   \<noteq> [''G1 X10 Y20'', ''G1 Z10'', ''G1 X-5.000 Y10.000\<newline>G1 X0.000\<newline>;TYPE:SKIN'']
   \<and> decimals (py_str (x_out_spec \<lparr>factor_xy = 1 / 2, factor_xz = 1 / 2, factor_yz = 1\<rparr>
        10 20 10)) = ''0''"
proof -
  have d: "decimals (py_str (x_out_spec \<lparr>factor_xy = 1 / 2, factor_xz = 1 / 2, factor_yz = 1\<rparr>
        10 20 10)) = ''0''"
    by (simp add: x_out_spec_def ev_round ev_str decimals_def)
  from d show ?thesis
    by (simp add: sample_output)
qed

text \<open>
  C9. With the three factors zero the corrected values are the inputs rounded to three
  decimals, and every move line of a layer from index 2 on has its X and Y text replaced
  by the print of these rounded inputs; nothing else changes.
\<close>

theorem C9_zero_factors:
  "(factor_xy f = 0 \<and> factor_xz f = 0 \<and> factor_yz f = 0 \<longrightarrow>
      x_out_spec f x y z = round3 x \<and> y_out_spec f y z = round3 y)
   \<and> (factor_xy f = 0 \<and> factor_xz f = 0 \<and> factor_yz f = 0 \<and> i < length data \<and> 2 \<le> i \<longrightarrow>
        cura_compensation f data ! i =
          join_nl (map (\<lambda>l. if is_move l
                            then replace_axis
                                   (replace_axis l ''X'' (getValue l ''X'')
                                      (round3 (axis_value (getValue l ''X''))))
                                   ''Y'' (getValue l ''Y'')
                                   (round3 (axis_value (getValue l ''Y'')))
                            else l)
                     (split_nl (data ! i))))
   \<and> \<bar>num_val (round3 v) - v\<bar> \<le> 1 / 2000
   \<and> num_val (round3 v) = of_int (py_round (v * 1000)) / 1000"
proof -
  have a: "factor_xy f = 0 \<and> factor_xz f = 0 \<and> factor_yz f = 0 \<longrightarrow>
      x_out_spec f x y z = round3 x \<and> y_out_spec f y z = round3 y"
    by (simp add: x_out_spec_zero y_out_spec_zero)
  have b: "factor_xy f = 0 \<and> factor_xz f = 0 \<and> factor_yz f = 0 \<and> i < length data \<and> 2 \<le> i \<longrightarrow>
        cura_compensation f data ! i =
          join_nl (map (\<lambda>l. if is_move l
                            then replace_axis
                                   (replace_axis l ''X'' (getValue l ''X'')
                                      (round3 (axis_value (getValue l ''X''))))
                                   ''Y'' (getValue l ''Y'')
                                   (round3 (axis_value (getValue l ''Y'')))
                            else l)
                     (split_nl (data ! i)))"
  proof
    assume h: "factor_xy f = 0 \<and> factor_xz f = 0 \<and> factor_yz f = 0 \<and> i < length data \<and> 2 \<le> i"
    define g where "g = (\<lambda>l. if is_move l
                            then replace_axis
                                   (replace_axis l ''X'' (getValue l ''X'')
                                      (round3 (axis_value (getValue l ''X''))))
                                   ''Y'' (getValue l ''Y'')
                                   (round3 (axis_value (getValue l ''Y'')))
                            else l)"
    have "out_line f data i j = g (split_nl (data ! i) ! j)" for j
      using h by (simp add: out_line_eq rewrite_def x_out_spec_zero y_out_spec_zero g_def Let_def)
    then have "map (out_line f data i) [0..<length (split_nl (data ! i))]
        = map (\<lambda>j. g (split_nl (data ! i) ! j)) [0..<length (split_nl (data ! i))]"
      by simp
    also have "\<dots> = map g (split_nl (data ! i))"
      by (rule map_nth_fun)
    finally show "cura_compensation f data ! i = join_nl (map g (split_nl (data ! i)))"
      using h by (simp add: cura_compensation_nth)
  qed
  have c: "num_val (round3 v) = of_int (py_round (v * 1000)) / 1000"
    by (simp add: round3_def)
  from a b c round3_close [of v] show ?thesis
    by (simp only: simp_thms)
qed

theorem C9_zero_factors_witness:
  "(2::nat) < length [''G1 X10 Y20'', ''G1 Z10'', ''G1 X10 Y20\<newline>G1 X5\<newline>;TYPE:SKIN'']
   \<and> x_out_spec \<lparr>factor_xy = 0, factor_xz = 0, factor_yz = 0\<rparr> 10 20 10 = PFloat 10000 3
   \<and> y_out_spec \<lparr>factor_xy = 0, factor_xz = 0, factor_yz = 0\<rparr> 20 10 = PFloat 20000 3
   \<and> cura_compensation \<lparr>factor_xy = 0, factor_xz = 0, factor_yz = 0\<rparr>
        [''G1 X10 Y20'', ''G1 Z10'', ''G1 X10 Y20\<newline>G1 X5\<newline>;TYPE:SKIN''] ! 2
      = ''G1 X10.0 Y20.0\<newline>G1 X5.0\<newline>;TYPE:SKIN''"
proof -
  have r: "replace_axis (replace_axis ''G1 X10 Y20'' ''X'' (Some (PInt 10)) (PFloat 10000 3))
             ''Y'' (Some (PInt 20)) (PFloat 20000 3) = ''G1 X10.0 Y20.0''"
    "replace_axis (replace_axis ''G1 X5'' ''X'' (Some (PInt 5)) (PFloat 5000 3))
             ''Y'' None (PFloat 0 3) = ''G1 X5.0''"
    by (simp_all add: replace_axis_def ev_str py_replace.simps)
  from C9_zero_factors [of "\<lparr>factor_xy = 0, factor_xz = 0, factor_yz = 0\<rparr>" 10 20 10 2
      "[''G1 X10 Y20'', ''G1 Z10'', ''G1 X10 Y20\<newline>G1 X5\<newline>;TYPE:SKIN'']" 0]
  show ?thesis
    by (simp add: is_move_def getValue_A getValue_C axis_value_def ev_round r)
qed

subsection \<open>The quarter formula\<close>

text \<open>
  Bounds of the float range in powers of ten, and the operations on values well inside
  it. The proofs compare powers by their exponents, so that no numeral of three hundred
  digits has to be computed more than once.
\<close>

lemma OVERFLOW_AT_bounds: "10 ^ 308 < OVERFLOW_AT" "OVERFLOW_AT < 10 ^ 309"
  by (simp_all add: OVERFLOW_AT_def)

lemma UNDERFLOW_AT_bounds: "1 / 10 ^ 324 < UNDERFLOW_AT" "UNDERFLOW_AT < 1 / 10 ^ 323"
  by (simp_all add: UNDERFLOW_AT_def field_simps)

lemma pow10_mono: "m \<le> n \<Longrightarrow> (10::real) ^ m \<le> 10 ^ n"
  by (rule power_increasing) simp_all

lemma inv_pow10_mono: "m \<le> n \<Longrightarrow> (1::real) / 10 ^ n \<le> 1 / 10 ^ m"
  by (rule divide_left_mono) (simp_all add: power_increasing del: power_numeral)

lemma sq_pow10: "((10::real) ^ n)\<^sup>2 = 10 ^ (2 * n)"
  by (simp only: power_mult [symmetric] mult.commute)

lemma range_moderate: "(10::real) ^ 12 < OVERFLOW_AT" "UNDERFLOW_AT < 1 / 10 ^ 12"
proof -
  have "(10::real) ^ 12 \<le> 10 ^ 308"
    by (rule pow10_mono) simp
  then show "(10::real) ^ 12 < OVERFLOW_AT"
    using OVERFLOW_AT_bounds(1) by (rule le_less_trans)
  have "(1::real) / 10 ^ 323 \<le> 1 / 10 ^ 12"
    by (rule inv_pow10_mono) simp
  with UNDERFLOW_AT_bounds(2) show "UNDERFLOW_AT < 1 / 10 ^ 12"
    by (rule less_le_trans)
qed

lemma fl_sum_moderate: "\<bar>x\<bar> \<le> 10 ^ 12 \<Longrightarrow> fl_sum x = Finite x"
proof -
  assume "\<bar>x\<bar> \<le> 10 ^ 12"
  with range_moderate(1) have "\<not> OVERFLOW_AT \<le> x" "\<not> x \<le> - OVERFLOW_AT"
    by linarith+
  then show ?thesis
    by (simp add: fl_sum_def)
qed

lemma fl_moderate: "1 / 10 ^ 12 \<le> \<bar>x\<bar> \<Longrightarrow> \<bar>x\<bar> \<le> 10 ^ 12 \<Longrightarrow> fl x = Finite x"
proof -
  assume a: "1 / 10 ^ 12 \<le> \<bar>x\<bar>" and b: "\<bar>x\<bar> \<le> 10 ^ 12"
  from a range_moderate(2) have "\<not> \<bar>x\<bar> \<le> UNDERFLOW_AT"
    by linarith
  with b show ?thesis
    by (simp add: fl_def fl_sum_moderate)
qed

lemma fl_zero: "fl 0 = Finite 0"
proof -
  have "(0::real) < 10 ^ 324"
    by (rule zero_less_power) simp
  then have "(0::real) < 1 / 10 ^ 324"
    by (simp only: zero_less_divide_1_iff)
  with UNDERFLOW_AT_bounds(1) have "(0::real) \<le> UNDERFLOW_AT"
    by (simp only: less_imp_le [OF less_trans])
  then show ?thesis
    by (simp add: fl_def)
qed

lemma py_float_moderate: "\<bar>x\<bar> \<le> 10 ^ 12 \<Longrightarrow> py_float (PyNumber x) = Inr (Finite x)"
proof -
  assume "\<bar>x\<bar> \<le> 10 ^ 12"
  with range_moderate(1) have "\<not> OVERFLOW_AT \<le> \<bar>x\<bar>"
    by linarith
  then show ?thesis
    by (simp add: py_float.simps(1))
qed

lemma py_pow2_moderate:
  "1 / 10 ^ 6 \<le> \<bar>x\<bar> \<Longrightarrow> \<bar>x\<bar> \<le> 10 ^ 6 \<Longrightarrow> py_pow2 (Finite x) = Inr (Finite (x\<^sup>2))"
proof -
  assume a: "1 / 10 ^ 6 \<le> \<bar>x\<bar>" and b: "\<bar>x\<bar> \<le> 10 ^ 6"
  have "(1 / 10 ^ 6)\<^sup>2 \<le> \<bar>x\<bar>\<^sup>2"
    using a by (intro power_mono) auto
  then have "1 / 10 ^ 12 \<le> x\<^sup>2"
    by (simp add: power_divide)
  with range_moderate(2) have l: "\<not> x\<^sup>2 \<le> UNDERFLOW_AT"
    by linarith
  have "\<bar>x\<bar>\<^sup>2 \<le> (10 ^ 6)\<^sup>2"
    using b by (intro power_mono) auto
  then have "x\<^sup>2 \<le> 10 ^ 12"
    by simp
  with range_moderate(1) have u: "\<not> OVERFLOW_AT \<le> x\<^sup>2"
    by linarith
  from l u show ?thesis
    by (simp add: py_pow2.simps(1))
qed

lemma py_pow2_large: "10 ^ 155 \<le> \<bar>x\<bar> \<Longrightarrow> py_pow2 (Finite x) = Inl OverflowError"
proof -
  assume a: "10 ^ 155 \<le> \<bar>x\<bar>"
  have p: "(0::real) \<le> 10 ^ 155"
    by (rule zero_le_power) simp
  have "((10::real) ^ 155)\<^sup>2 \<le> \<bar>x\<bar>\<^sup>2"
    using a p by (rule power_mono)
  then have "(10::real) ^ (2 * 155) \<le> x\<^sup>2"
    by (simp only: sq_pow10 power2_abs)
  moreover have "(10::real) ^ 309 \<le> 10 ^ (2 * 155)"
    by (rule pow10_mono) simp
  ultimately have "(10::real) ^ 309 \<le> x\<^sup>2"
    by (rule order_trans [rotated])
  with OVERFLOW_AT_bounds(2) have "OVERFLOW_AT \<le> x\<^sup>2"
    by (rule less_imp_le [OF less_le_trans])
  then show ?thesis
    by (simp only: py_pow2.simps(1) if_True)
qed

lemma py_pow2_small: "\<bar>x\<bar> \<le> 1 / 10 ^ 162 \<Longrightarrow> py_pow2 (Finite x) = Inr (Finite 0)"
proof -
  assume a: "\<bar>x\<bar> \<le> 1 / 10 ^ 162"
  have "\<bar>x\<bar>\<^sup>2 \<le> ((1::real) / 10 ^ 162)\<^sup>2"
    using a abs_ge_zero by (rule power_mono)
  then have s: "x\<^sup>2 \<le> 1 / 10 ^ (2 * 162)"
    by (simp only: power_divide sq_pow10 power2_abs power_one)
  have e: "(2::nat) * 162 = 324"
    by simp
  from s have s': "x\<^sup>2 \<le> 1 / 10 ^ 324"
    by (simp only: e)
  from s' UNDERFLOW_AT_bounds(1) have u: "x\<^sup>2 \<le> UNDERFLOW_AT"
    by (rule less_imp_le [OF le_less_trans])
  have "(1::real) / 10 ^ 324 \<le> 1 / 10 ^ 0"
    by (rule inv_pow10_mono) simp
  then have "(1::real) / 10 ^ 324 \<le> 1"
    by (simp only: power_0 div_by_1)
  with s' have "x\<^sup>2 \<le> 1"
    by (rule order_trans)
  moreover have "(1::real) \<le> 10 ^ 12"
    by simp
  ultimately have "\<not> OVERFLOW_AT \<le> x\<^sup>2"
    using range_moderate(1) by linarith
  with u show ?thesis
    by (simp only: py_pow2.simps(1) if_False if_True)
qed

lemmas ev_float = py_float_moderate py_pow2_moderate fl_sum_moderate fl_moderate fl_zero

lemma block_default:
  "except_zero (try_I (PyNumber (7071 / 50)) (PyNumber (7071 / 50)) (PyNumber 100))
     = Inr (Finite 0)"
  "except_zero (try_JK (PyNumber (7071 / 50)) (PyNumber (7071 / 50)) (PyNumber 100))
     = Inr (Finite 0)"
  by (simp_all add: try_I_def try_JK_def quarter_expr_def ev_float)

lemma block_default_decimal:
  "except_zero (try_I (PyNumber 141.42) (PyNumber 141.42) (PyNumber 100)) = Inr (Finite 0)"
  "except_zero (try_JK (PyNumber 141.42) (PyNumber 141.42) (PyNumber 100)) = Inr (Finite 0)"
  by (simp_all add: block_default)

lemma block_scenario:
  "except_zero (try_I (PyNumber 150) (PyNumber 130) (PyNumber 100)) = Inr (Finite (7 / 50))"
  by (simp add: try_I_def quarter_expr_def ev_float)

lemma py_float_finite: "\<bar>x\<bar> \<le> 10 ^ 308 \<Longrightarrow> py_float (PyNumber x) = Inr (Finite x)"
proof -
  assume "\<bar>x\<bar> \<le> 10 ^ 308"
  from this OVERFLOW_AT_bounds(1) have "\<bar>x\<bar> < OVERFLOW_AT"
    by (rule le_less_trans)
  then have "\<not> OVERFLOW_AT \<le> \<bar>x\<bar>"
    by (simp only: not_le)
  then show ?thesis
    by (simp only: py_float.simps(1) if_False)
qed

lemma scaled_pow10:
  assumes "1 \<le> c" and "c \<le> 10"
  shows "m \<le> n \<Longrightarrow> (10::real) ^ m \<le> \<bar>c * 10 ^ n\<bar>"
    and "n < k \<Longrightarrow> \<bar>c * 10 ^ n\<bar> \<le> 10 ^ k"
    and "0 < c * 10 ^ n"
proof -
  have p: "(0::real) < 10 ^ n"
    by (rule zero_less_power) simp
  from assms p have l: "(10::real) ^ n \<le> c * 10 ^ n"
    by simp
  from assms p have u: "c * 10 ^ n \<le> 10 ^ Suc n"
    by simp
  from p l show z: "0 < c * 10 ^ n"
    by (rule less_le_trans)
  then have e: "\<bar>c * 10 ^ n\<bar> = c * 10 ^ n"
    by (rule abs_of_pos)
  show "(10::real) ^ m \<le> \<bar>c * 10 ^ n\<bar>" if "m \<le> n"
  proof -
    from that have "(10::real) ^ m \<le> 10 ^ n"
      by (rule pow10_mono)
    from this l show ?thesis
      unfolding e by (rule order_trans)
  qed
  show "\<bar>c * 10 ^ n\<bar> \<le> 10 ^ k" if "n < k"
  proof -
    from that have "(10::real) ^ Suc n \<le> 10 ^ k"
      by (intro pow10_mono) simp
    with u show ?thesis
      unfolding e by (rule order_trans)
  qed
qed

lemma try_I_overflow:
  "10 ^ 155 \<le> \<bar>a\<bar> \<Longrightarrow> \<bar>a\<bar> \<le> 10 ^ 308 \<Longrightarrow> \<bar>b\<bar> \<le> 10 ^ 308 \<Longrightarrow> 0 < d \<Longrightarrow> \<bar>d\<bar> \<le> 10 ^ 308 \<Longrightarrow>
     except_zero (try_I (PyNumber a) (PyNumber b) (PyNumber d)) = Inl OverflowError"
  by (simp add: try_I_def quarter_expr_def py_float_finite py_pow2_large del: power_numeral)

lemma block_overflow:
  "except_zero (try_I (PyNumber (5 * 10 ^ 200)) (PyNumber (3 * 10 ^ 200))
     (PyNumber (2 * 10 ^ 200))) = Inl OverflowError"
  by (rule try_I_overflow; (rule scaled_pow10(1) | rule scaled_pow10(2) | rule scaled_pow10(3));
      simp)

lemma float_large:
  "py_float (PyNumber (5 * 10 ^ 200)) = Inr (Finite (5 * 10 ^ 200))"
  "py_float (PyNumber (3 * 10 ^ 200)) = Inr (Finite (3 * 10 ^ 200))"
  "py_float (PyNumber (2 * 10 ^ 200)) = Inr (Finite (2 * 10 ^ 200))"
  by (rule py_float_finite; rule scaled_pow10(2); simp)+

lemma quarter_ratio: "0 < t \<Longrightarrow> ((5 * t)\<^sup>2 - (3 * t)\<^sup>2) / (4 * (2 * t)\<^sup>2) = (1::real)"
  by (simp add: power2_eq_square field_simps)

lemma quarter_spec_large:
  "quarter_spec (PyNumber (5 * 10 ^ 200)) (PyNumber (3 * 10 ^ 200)) (PyNumber (2 * 10 ^ 200)) = 1"
proof -
  have p: "(0::real) < 10 ^ 200"
    by (rule zero_less_power) simp
  have "(0::real) < 2 * 10 ^ 200"
    by (rule scaled_pow10(3)) simp_all
  then have d: "\<not> (2::real) * 10 ^ 200 \<le> 0"
    by (simp only: not_le)
  show ?thesis
    unfolding quarter_spec_def float_large
    by (simp only: prod.case sum.case pyfloat.case d if_False quarter_ratio [OF p])
qed

lemma block_underflow:
  "except_zero (try_I (PyNumber 150) (PyNumber 130) (PyNumber (1 / 10 ^ 200))) = Inr (Finite 0)"
proof -
  have s: "\<bar>(1::real) / 10 ^ 200\<bar> \<le> 1 / 10 ^ 162"
    using inv_pow10_mono [of 162 200] by (simp del: power_numeral)
  have "(1::real) / 10 ^ 200 \<le> 1 / 10 ^ 0"
    by (rule inv_pow10_mono) simp
  then have m: "\<bar>(1::real) / 10 ^ 200\<bar> \<le> 10 ^ 12"
    by (simp del: power_numeral) (simp add: order_trans [OF _ one_le_power])
  have p: "\<not> (1::real) / 10 ^ 200 \<le> 0"
    by (simp del: power_numeral)
  have f: "py_float (PyNumber 150) = Inr (Finite 150)" "py_float (PyNumber 130) = Inr (Finite 130)"
    by (simp_all add: py_float_moderate)
  have q: "py_pow2 (Finite 150) = Inr (Finite 22500)" "py_pow2 (Finite 130) = Inr (Finite 16900)"
    by (simp_all add: py_pow2_moderate)
  show ?thesis
    unfolding try_I_def quarter_expr_def f py_float_moderate [OF m]
    by (simp add: q py_pow2_small [OF s] p fl_zero del: power_numeral)
qed

lemma init_eq:
  "init = Returns \<lparr>xy_ac = PyNumber 141.42, xy_bd = PyNumber 141.42, xy_ad = PyNumber 100,
      xz_ac = PyNumber 141.42, xz_bd = PyNumber 141.42, xz_ad = PyNumber 100,
      yz_ac = PyNumber 141.42, yz_bd = PyNumber 141.42, yz_ad = PyNumber 100,
      marlin_I = Finite 0, marlin_J = Finite 0, marlin_K = Finite 0\<rparr>"
  by (simp add: init_def calculate_skew_factors_def block_default)

text \<open>
  C2. The claim lets no exception leave \<^verbatim>\<open>calculate_skew_factors\<close> and gives, for three
  values that convert with \<^verbatim>\<open>ad > 0\<close>, the factor \<^verbatim>\<open>(ac^2 - bd^2) / (4 ad^2)\<close>. For the
  measurements \<^verbatim>\<open>5e200\<close>, \<^verbatim>\<open>3e200\<close>, \<^verbatim>\<open>2e200\<close> of plane XY all three values convert and
  \<^verbatim>\<open>AD\<close> is positive, so the claim gives the factor \<open>1\<close>. In the code \<^verbatim>\<open>AC**2\<close> raises
  \<^verbatim>\<open>OverflowError\<close>, which \<^verbatim>\<open>except (ValueError, TypeError, ZeroDivisionError)\<close> does
  not absorb: the method is left by that exception and no factor is assigned.
\<close>

theorem C2_overflow_escapes:
  "calculate_skew_factors
     \<lparr>xy_ac = PyNumber (5 * 10 ^ 200), xy_bd = PyNumber (3 * 10 ^ 200),
     xy_ad = PyNumber (2 * 10 ^ 200),
     xz_ac = PyNumber 141.42, xz_bd = PyNumber 141.42, xz_ad = PyNumber 100,
     yz_ac = PyNumber 141.42, yz_bd = PyNumber 141.42, yz_ad = PyNumber 100,
     marlin_I = Finite 0, marlin_J = Finite 0, marlin_K = Finite 0\<rparr>
   = Raises OverflowError
     \<lparr>xy_ac = PyNumber (5 * 10 ^ 200), xy_bd = PyNumber (3 * 10 ^ 200),
     xy_ad = PyNumber (2 * 10 ^ 200),
     xz_ac = PyNumber 141.42, xz_bd = PyNumber 141.42, xz_ad = PyNumber 100,
     yz_ac = PyNumber 141.42, yz_bd = PyNumber 141.42, yz_ad = PyNumber 100,
     marlin_I = Finite 0, marlin_J = Finite 0, marlin_K = Finite 0\<rparr>
   \<and> py_float (PyNumber (5 * 10 ^ 200)) = Inr (Finite (5 * 10 ^ 200))
   \<and> py_float (PyNumber (3 * 10 ^ 200)) = Inr (Finite (3 * 10 ^ 200))
   \<and> py_float (PyNumber (2 * 10 ^ 200)) = Inr (Finite (2 * 10 ^ 200))
   \<and> \<not> le_zero (Finite (2 * 10 ^ 200))
   \<and> quarter_spec (PyNumber (5 * 10 ^ 200)) (PyNumber (3 * 10 ^ 200)) (PyNumber (2 * 10 ^ 200))
       = 1"
  using scaled_pow10(3) [of 2 200]
  by (simp add: calculate_skew_factors_def block_overflow float_large quarter_spec_large
      del: power_numeral)

text \<open>
  At the other end of the range a positive \<^verbatim>\<open>AD\<close> whose square underflows makes the
  divisor \<^verbatim>\<open>0.0\<close>: the division raises \<^verbatim>\<open>ZeroDivisionError\<close>, the handler absorbs it,
  and the factor is \<^verbatim>\<open>0.0\<close>.
\<close>

lemma underflow_gives_zero:
  "calculate_skew_factors
     \<lparr>xy_ac = PyNumber 150, xy_bd = PyNumber 130, xy_ad = PyNumber (1 / 10 ^ 200),
      xz_ac = PyNumber 141.42, xz_bd = PyNumber 141.42, xz_ad = PyNumber 100,
      yz_ac = PyNumber 141.42, yz_bd = PyNumber 141.42, yz_ad = PyNumber 100,
      marlin_I = Finite 7, marlin_J = Finite 7, marlin_K = Finite 7\<rparr>
   = Returns
     \<lparr>xy_ac = PyNumber 150, xy_bd = PyNumber 130, xy_ad = PyNumber (1 / 10 ^ 200),
      xz_ac = PyNumber 141.42, xz_bd = PyNumber 141.42, xz_ad = PyNumber 100,
      yz_ac = PyNumber 141.42, yz_bd = PyNumber 141.42, yz_ad = PyNumber 100,
      marlin_I = Finite 0, marlin_J = Finite 0, marlin_K = Finite 0\<rparr>"
  by (simp add: calculate_skew_factors_def block_default_decimal block_underflow
      del: power_numeral)

text \<open>
  C6. The claim gives \<^verbatim>\<open>0.014\<close> for the measurements 150, 130, 100. The code computes
  \<^verbatim>\<open>(150^2 - 130^2) / (4 * 100^2) = 5600 / 40000 = 0.14\<close>, whatever the other two planes
  hold and whether or not their blocks let the method return.
\<close>

theorem C6_scenario_value:
  "calculate_skew_factors
     (s\<lparr>xy_ac := PyNumber 150, xy_bd := PyNumber 130, xy_ad := PyNumber 100\<rparr>)
   = (case except_zero (try_JK (xz_ac s) (xz_bd s) (xz_ad s)) of
        Inl e \<Rightarrow>
          Raises e (s\<lparr>xy_ac := PyNumber 150, xy_bd := PyNumber 130, xy_ad := PyNumber 100,
                      marlin_I := Finite 0.14\<rparr>)
      | Inr j \<Rightarrow>
     (case except_zero (try_JK (yz_ac s) (yz_bd s) (yz_ad s)) of
        Inl e \<Rightarrow>
          Raises e (s\<lparr>xy_ac := PyNumber 150, xy_bd := PyNumber 130, xy_ad := PyNumber 100,
                      marlin_I := Finite 0.14, marlin_J := j\<rparr>)
      | Inr k \<Rightarrow>
          Returns (s\<lparr>xy_ac := PyNumber 150, xy_bd := PyNumber 130, xy_ad := PyNumber 100,
                     marlin_I := Finite 0.14, marlin_J := j, marlin_K := k\<rparr>)))
   \<and> calculate_skew_factors
       \<lparr>xy_ac = PyNumber 150, xy_bd = PyNumber 130, xy_ad = PyNumber 100,
        xz_ac = PyNumber 141.42, xz_bd = PyNumber 141.42, xz_ad = PyNumber 100,
        yz_ac = PyNumber 141.42, yz_bd = PyNumber 141.42, yz_ad = PyNumber 100,
        marlin_I = Finite 0, marlin_J = Finite 0, marlin_K = Finite 0\<rparr>
     = Returns
       \<lparr>xy_ac = PyNumber 150, xy_bd = PyNumber 130, xy_ad = PyNumber 100,
        xz_ac = PyNumber 141.42, xz_bd = PyNumber 141.42, xz_ad = PyNumber 100,
        yz_ac = PyNumber 141.42, yz_bd = PyNumber 141.42, yz_ad = PyNumber 100,
        marlin_I = Finite 0.14, marlin_J = Finite 0, marlin_K = Finite 0\<rparr>"
  by (simp add: calculate_skew_factors_def block_scenario block_default split: sum.splits)

theorem C6_scenario_counterexample:
  "\<not> (\<exists>s'. calculate_skew_factors
       \<lparr>xy_ac = PyNumber 150, xy_bd = PyNumber 130, xy_ad = PyNumber 100,
        xz_ac = PyNumber 141.42, xz_bd = PyNumber 141.42, xz_ad = PyNumber 100,
        yz_ac = PyNumber 141.42, yz_bd = PyNumber 141.42, yz_ad = PyNumber 100,
        marlin_I = Finite 0, marlin_J = Finite 0, marlin_K = Finite 0\<rparr> = Returns s'
        \<and> marlin_I s' = Finite 0.014)"
  by (simp add: calculate_skew_factors_def block_scenario block_default)

text \<open>
  C10. The claim makes the stored factors agree with the stored measurements after every
  call of \<^verbatim>\<open>set_measurements\<close>. The method stores the nine values before it computes.
  On a calculator that holds the factor \<^verbatim>\<open>0.14\<close> of the measurements 150, 130, 100, a
  call with \<^verbatim>\<open>5e200\<close>, \<^verbatim>\<open>3e200\<close>, \<^verbatim>\<open>2e200\<close> for plane XY is left by \<^verbatim>\<open>OverflowError\<close>
  (the defect of C2) after these values are stored: the object then holds the new
  measurements, for which the claim gives the factor \<open>1\<close>, beside the factor \<^verbatim>\<open>0.14\<close> of
  the previous ones, and \<^verbatim>\<open>get_skew_factors\<close> and \<^verbatim>\<open>get_marlin_command\<close> return that
  stale factor.
\<close>

theorem C10_stale_factors:
  "init = Returns
      \<lparr>xy_ac = PyNumber 141.42, xy_bd = PyNumber 141.42,
       xy_ad = PyNumber 100,
       xz_ac = PyNumber 141.42, xz_bd = PyNumber 141.42, xz_ad = PyNumber 100,
       yz_ac = PyNumber 141.42, yz_bd = PyNumber 141.42, yz_ad = PyNumber 100,
       marlin_I = Finite 0, marlin_J = Finite 0, marlin_K = Finite 0\<rparr>
   \<and> set_measurements
       \<lparr>m_xy_ac = PyNumber 150, m_xy_bd = PyNumber 130,
        m_xy_ad = PyNumber 100,
        m_xz_ac = PyNumber 141.42, m_xz_bd = PyNumber 141.42, m_xz_ad = PyNumber 100,
        m_yz_ac = PyNumber 141.42, m_yz_bd = PyNumber 141.42, m_yz_ad = PyNumber 100\<rparr>
       \<lparr>xy_ac = PyNumber 141.42, xy_bd = PyNumber 141.42,
        xy_ad = PyNumber 100,
        xz_ac = PyNumber 141.42, xz_bd = PyNumber 141.42, xz_ad = PyNumber 100,
        yz_ac = PyNumber 141.42, yz_bd = PyNumber 141.42, yz_ad = PyNumber 100,
        marlin_I = Finite 0, marlin_J = Finite 0, marlin_K = Finite 0\<rparr>
     = Returns
       \<lparr>xy_ac = PyNumber 150, xy_bd = PyNumber 130,
        xy_ad = PyNumber 100,
        xz_ac = PyNumber 141.42, xz_bd = PyNumber 141.42, xz_ad = PyNumber 100,
        yz_ac = PyNumber 141.42, yz_bd = PyNumber 141.42, yz_ad = PyNumber 100,
        marlin_I = Finite 0.14, marlin_J = Finite 0, marlin_K = Finite 0\<rparr>
   \<and> set_measurements
       \<lparr>m_xy_ac = PyNumber (5 * 10 ^ 200), m_xy_bd = PyNumber (3 * 10 ^ 200),
        m_xy_ad = PyNumber (2 * 10 ^ 200),
        m_xz_ac = PyNumber 141.42, m_xz_bd = PyNumber 141.42, m_xz_ad = PyNumber 100,
        m_yz_ac = PyNumber 141.42, m_yz_bd = PyNumber 141.42, m_yz_ad = PyNumber 100\<rparr>
       \<lparr>xy_ac = PyNumber 150, xy_bd = PyNumber 130,
        xy_ad = PyNumber 100,
        xz_ac = PyNumber 141.42, xz_bd = PyNumber 141.42, xz_ad = PyNumber 100,
        yz_ac = PyNumber 141.42, yz_bd = PyNumber 141.42, yz_ad = PyNumber 100,
        marlin_I = Finite 0.14, marlin_J = Finite 0, marlin_K = Finite 0\<rparr>
     = Raises OverflowError
       \<lparr>xy_ac = PyNumber (5 * 10 ^ 200), xy_bd = PyNumber (3 * 10 ^ 200),
        xy_ad = PyNumber (2 * 10 ^ 200),
        xz_ac = PyNumber 141.42, xz_bd = PyNumber 141.42, xz_ad = PyNumber 100,
        yz_ac = PyNumber 141.42, yz_bd = PyNumber 141.42, yz_ad = PyNumber 100,
        marlin_I = Finite 0.14, marlin_J = Finite 0, marlin_K = Finite 0\<rparr>
   \<and> reachable
       \<lparr>xy_ac = PyNumber (5 * 10 ^ 200), xy_bd = PyNumber (3 * 10 ^ 200),
        xy_ad = PyNumber (2 * 10 ^ 200),
        xz_ac = PyNumber 141.42, xz_bd = PyNumber 141.42, xz_ad = PyNumber 100,
        yz_ac = PyNumber 141.42, yz_bd = PyNumber 141.42, yz_ad = PyNumber 100,
        marlin_I = Finite 0.14, marlin_J = Finite 0, marlin_K = Finite 0\<rparr>
   \<and> \<not> consistent
       \<lparr>xy_ac = PyNumber (5 * 10 ^ 200), xy_bd = PyNumber (3 * 10 ^ 200),
        xy_ad = PyNumber (2 * 10 ^ 200),
        xz_ac = PyNumber 141.42, xz_bd = PyNumber 141.42, xz_ad = PyNumber 100,
        yz_ac = PyNumber 141.42, yz_bd = PyNumber 141.42, yz_ad = PyNumber 100,
        marlin_I = Finite 0.14, marlin_J = Finite 0, marlin_K = Finite 0\<rparr>
   \<and> get_skew_factors
       \<lparr>xy_ac = PyNumber (5 * 10 ^ 200), xy_bd = PyNumber (3 * 10 ^ 200),
        xy_ad = PyNumber (2 * 10 ^ 200),
        xz_ac = PyNumber 141.42, xz_bd = PyNumber 141.42, xz_ad = PyNumber 100,
        yz_ac = PyNumber 141.42, yz_bd = PyNumber 141.42, yz_ad = PyNumber 100,
        marlin_I = Finite 0.14, marlin_J = Finite 0, marlin_K = Finite 0\<rparr>
     = (Finite 0.14, Finite 0, Finite 0)
   \<and> get_marlin_command
       \<lparr>xy_ac = PyNumber (5 * 10 ^ 200), xy_bd = PyNumber (3 * 10 ^ 200),
        xy_ad = PyNumber (2 * 10 ^ 200),
        xz_ac = PyNumber 141.42, xz_bd = PyNumber 141.42, xz_ad = PyNumber 100,
        yz_ac = PyNumber 141.42, yz_bd = PyNumber 141.42, yz_ad = PyNumber 100,
        marlin_I = Finite 0.14, marlin_J = Finite 0, marlin_K = Finite 0\<rparr>
     = ''M852 I0.14000000 J0.00000000 K0.00000000 ; PrintSkewCompensation''
   \<and> quarter_spec (PyNumber (5 * 10 ^ 200)) (PyNumber (3 * 10 ^ 200)) (PyNumber (2 * 10 ^ 200))
       = 1"
proof -
  let ?m1 = "\<lparr>m_xy_ac = PyNumber 150, m_xy_bd = PyNumber 130,
             m_xy_ad = PyNumber 100,
             m_xz_ac = PyNumber 141.42, m_xz_bd = PyNumber 141.42, m_xz_ad = PyNumber 100,
             m_yz_ac = PyNumber 141.42, m_yz_bd = PyNumber 141.42, m_yz_ad = PyNumber 100\<rparr>"
  let ?m2 = "\<lparr>m_xy_ac = PyNumber (5 * 10 ^ 200), m_xy_bd = PyNumber (3 * 10 ^ 200),
             m_xy_ad = PyNumber (2 * 10 ^ 200),
             m_xz_ac = PyNumber 141.42, m_xz_bd = PyNumber 141.42, m_xz_ad = PyNumber 100,
             m_yz_ac = PyNumber 141.42, m_yz_bd = PyNumber 141.42, m_yz_ad = PyNumber 100\<rparr>"
  let ?s0 = "\<lparr>xy_ac = PyNumber 141.42, xy_bd = PyNumber 141.42,
             xy_ad = PyNumber 100,
             xz_ac = PyNumber 141.42, xz_bd = PyNumber 141.42, xz_ad = PyNumber 100,
             yz_ac = PyNumber 141.42, yz_bd = PyNumber 141.42, yz_ad = PyNumber 100,
             marlin_I = Finite 0, marlin_J = Finite 0, marlin_K = Finite 0\<rparr>"
  let ?s1 = "\<lparr>xy_ac = PyNumber 150, xy_bd = PyNumber 130,
             xy_ad = PyNumber 100,
             xz_ac = PyNumber 141.42, xz_bd = PyNumber 141.42, xz_ad = PyNumber 100,
             yz_ac = PyNumber 141.42, yz_bd = PyNumber 141.42, yz_ad = PyNumber 100,
             marlin_I = Finite 0.14, marlin_J = Finite 0, marlin_K = Finite 0\<rparr>"
  let ?s2 = "\<lparr>xy_ac = PyNumber (5 * 10 ^ 200), xy_bd = PyNumber (3 * 10 ^ 200),
             xy_ad = PyNumber (2 * 10 ^ 200),
             xz_ac = PyNumber 141.42, xz_bd = PyNumber 141.42, xz_ad = PyNumber 100,
             yz_ac = PyNumber 141.42, yz_bd = PyNumber 141.42, yz_ad = PyNumber 100,
             marlin_I = Finite 0.14, marlin_J = Finite 0, marlin_K = Finite 0\<rparr>"
  have s1: "set_measurements ?m1 ?s0 = Returns ?s1"
    by (simp add: set_measurements_def calculate_skew_factors_def block_scenario block_default)
  have s2: "set_measurements ?m2 ?s1 = Raises OverflowError ?s2"
    by (simp add: set_measurements_def calculate_skew_factors_def block_overflow
        del: power_numeral)
  have r1: "reachable ?s1"
    by (rule reach_set [OF reach_init [OF init_eq], of ?m1]) (simp only: s1 state_of.simps)
  have r2: "reachable ?s2"
    by (rule reach_set [OF r1, of ?m2]) (simp only: s2 state_of.simps)
  have c: "\<not> consistent ?s2"
  proof
    assume "consistent ?s2"
    then have "marlin_I ?s2 = Finite (quarter_spec (xy_ac ?s2) (xy_bd ?s2) (xy_ad ?s2))"
      by (simp only: consistent_def)
    then have "Finite 0.14 = Finite 1"
      by (simp only: calc.select_convs quarter_spec_large)
    then show False
      by simp
  qed
  have g: "get_skew_factors ?s2 = (Finite 0.14, Finite 0, Finite 0)"
    by (simp only: get_skew_factors_def calc.select_convs)
  have "get_marlin_command ?s2
      = ''M852 I'' @ format_float_8f (Finite 0.14) @ '' J'' @ format_float_8f (Finite 0) @
        '' K'' @ format_float_8f (Finite 0) @ '' ; '' @ PLUGIN_ID"
    by (simp only: get_marlin_command_def calc.select_convs)
  then have t: "get_marlin_command ?s2
      = ''M852 I0.14000000 J0.00000000 K0.00000000 ; PrintSkewCompensation''"
    by (simp add: format_8f_example format_8f_zero PLUGIN_ID_def)
  from init_eq s1 s2 r2 c g t quarter_spec_large show ?thesis
    by (simp only: simp_thms)
qed

subsection \<open>The geometric factor\<close>

lemma arccos_eq_0: "-1 \<le> x \<Longrightarrow> x \<le> 1 \<Longrightarrow> arccos x = 0 \<longleftrightarrow> x = 1"
proof
  assume a: "-1 \<le> x" "x \<le> 1" and z: "arccos x = 0"
  from a have "cos (arccos x) = x"
    by (rule cos_arccos)
  with z show "x = 1"
    by simp
next
  assume "x = 1"
  then show "arccos x = 0"
    by simp
qed

lemma arccos_eq_pi: "-1 \<le> x \<Longrightarrow> x \<le> 1 \<Longrightarrow> arccos x = pi \<longleftrightarrow> x = -1"
proof
  assume a: "-1 \<le> x" "x \<le> 1" and z: "arccos x = pi"
  from a have "cos (arccos x) = x"
    by (rule cos_arccos)
  with z show "x = -1"
    by simp
next
  assume "x = -1"
  then show "arccos x = pi"
    by (simp add: arccos_minus_1)
qed

lemma math_tan_arccos:
  "-1 \<le> x \<Longrightarrow> x \<le> 1 \<Longrightarrow>
     math_tan (pi / 2 - arccos x) =
       (if x = 1 then TAN_HALF_PI else if x = -1 then - TAN_HALF_PI
        else tan (pi / 2 - arccos x))"
proof -
  assume a: "-1 \<le> x" "x \<le> 1"
  have p: "pi / 2 - arccos x = pi / 2 \<longleftrightarrow> x = 1"
    using arccos_eq_0 [OF a] by auto
  have "pi / 2 - arccos x = - (pi / 2) \<longleftrightarrow> arccos x = pi"
    by auto
  then have m: "pi / 2 - arccos x = - (pi / 2) \<longleftrightarrow> x = -1"
    using arccos_eq_pi [OF a] by simp
  show ?thesis
    unfolding math_tan_def p m by simp
qed

text \<open>
  C1. \<^verbatim>\<open>calculate_skew_factor\<close> returns \<^verbatim>\<open>0.0\<close> when a measurement is not positive, when
  the radicand \<^verbatim>\<open>2 ac^2 + 2 bd^2 - 4 ad^2\<close> is negative, when \<^verbatim>\<open>2 ab ad\<close> is zero, or when
  the argument of the arc cosine lies outside \<^verbatim>\<open>[-1, 1]\<close> (no clamping); otherwise it
  returns \<^verbatim>\<open>tan(pi/2 - acos(arg))\<close>. Strictly inside the interval that is the tangent of
  the real numbers. At the two ends \<open>arg = 1\<close> and \<open>arg = -1\<close>, where the tangent of the
  real numbers has a pole, the same expression is evaluated at the float \<^verbatim>\<open>math.pi/2\<close>
  and gives \<^verbatim>\<open>1.633123935319537e+16\<close> and its negative; it gives neither \<^verbatim>\<open>0.0\<close> nor an
  exception.
\<close>

theorem C1_geometric_factor:
  "calculate_skew_factor ac bd ad =
     (let ab = sqrt (2 * ac\<^sup>2 + 2 * bd\<^sup>2 - 4 * ad\<^sup>2) / 2;
          arg = (ac\<^sup>2 - ab\<^sup>2 - ad\<^sup>2) / (2 * ab * ad)
      in if ac \<le> 0 \<or> bd \<le> 0 \<or> ad \<le> 0 \<or> 2 * ac\<^sup>2 + 2 * bd\<^sup>2 - 4 * ad\<^sup>2 < 0
            \<or> 2 * ab * ad = 0 \<or> arg < -1 \<or> 1 < arg
         then 0
         else if arg = 1 then TAN_HALF_PI
         else if arg = -1 then - TAN_HALF_PI
         else tan (pi / 2 - arccos arg))"
proof -
  define T where "T = 2 * (ac * ac) + 2 * (bd * bd) - 4 * (ad * ad)"
  define ab where "ab = sqrt T / 2"
  define arg where "arg = (ac * ac - ab * ab - ad * ad) / (2 * ab * ad)"
  have Teq: "2 * ac * ac + 2 * bd * bd - 4 * ad * ad = T"
    by (simp add: T_def)
  have st: "skew_try ac bd ad =
      (if T < 0 \<or> 2 * ab * ad = 0 \<or> arg < -1 \<or> 1 < arg then Inr 0
       else Inr (math_tan (pi / 2 - arccos arg)))"
    unfolding skew_try_def Teq
    by (auto simp add: Let_def math_sqrt_def py_truediv_def math_acos_def ab_def arg_def)
  have mt: "\<not> (arg < -1 \<or> 1 < arg) \<Longrightarrow>
      math_tan (pi / 2 - arccos arg) =
       (if arg = 1 then TAN_HALF_PI else if arg = -1 then - TAN_HALF_PI
        else tan (pi / 2 - arccos arg))"
    by (rule math_tan_arccos) simp_all
  show ?thesis
    unfolding calculate_skew_factor_def st power2_eq_square T_def [symmetric] Let_def
      ab_def [symmetric] arg_def [symmetric]
    using mt by auto
qed

text \<open>
  A rectangle with sides 3 and 4 and both diagonals 5 has no skew. The measurements
  4, 2, 1 and 2, 4, 1 are those of a flattened parallelogram and reach the two ends of
  the interval.
\<close>

lemma sqrt_36: "sqrt 36 = 6"
proof -
  have "sqrt 36 = sqrt (6\<^sup>2)"
    by simp
  then show ?thesis
    by (simp only: real_sqrt_abs)
qed

lemma calculate_skew_factor_rectangle: "calculate_skew_factor 5 5 3 = 0"
proof -
  have "sqrt 64 = sqrt (8\<^sup>2)"
    by simp
  then have s: "sqrt 64 = 8"
    by (simp only: real_sqrt_abs)
  show ?thesis
    by (simp add: calculate_skew_factor_def skew_try_def math_sqrt_def math_acos_def
        py_truediv_def math_tan_def Let_def s)
qed

lemma calculate_skew_factor_flat: "calculate_skew_factor 4 2 1 = 16331239353195370"
  by (simp add: calculate_skew_factor_def skew_try_def math_sqrt_def math_acos_def
      py_truediv_def math_tan_def TAN_HALF_PI_def Let_def sqrt_36)

lemma calculate_skew_factor_flat_neg: "calculate_skew_factor 2 4 1 = - 16331239353195370"
  by (simp add: calculate_skew_factor_def skew_try_def math_sqrt_def math_acos_def
      py_truediv_def math_tan_def TAN_HALF_PI_def Let_def sqrt_36 arccos_minus_1)

end
